theory Spec2Isabelle
  imports Complex_Main
begin

section \<open>Conventions of the embedding\<close>

text \<open>
  The program is \<^verbatim>\<open>trapezoid2D_integration_functions.py\<close>. Its floating-point numbers
  are read as real (and complex) numbers: every statement below is about the exact
  arithmetic the code writes down, not about rounding, infinities or NaN. Where numpy
  divides by a zero scalar it warns and continues with an infinity; the model then
  continues with HOL's quotient, and no statement below rests on its value. A
  two-dimensional numpy array is a list of rows. Sample counts are natural numbers.
  Exceptions are values of \<open>py_error\<close>, and a function that can raise returns
  \<open>py_error + 'a\<close> (\<open>Inl\<close> is the raise). Scalar arguments are Python floats, whose
  division by zero raises \<^verbatim>\<open>ZeroDivisionError\<close>.
\<close>

datatype py_error = IndexError | ValueError | TypeError | ZeroDivisionError

type_synonym cmatrix = "complex list list"

text \<open>Sequencing of fallible steps: the first raise ends the computation.\<close>

definition bind_err :: "py_error + 'a \<Rightarrow> ('a \<Rightarrow> py_error + 'b) \<Rightarrow> py_error + 'b" where
  "bind_err m f = (case m of Inl e \<Rightarrow> Inl e | Inr x \<Rightarrow> f x)"

text \<open>A \<^verbatim>\<open>for\<close> loop over a list whose body may raise, threading the loop's state.\<close>

fun for_loop :: "'i list \<Rightarrow> ('i \<Rightarrow> 's \<Rightarrow> py_error + 's) \<Rightarrow> 's \<Rightarrow> py_error + 's" where
  "for_loop [] body s = Inr s"
| "for_loop (i # is) body s = bind_err (body i s) (for_loop is body)"

text \<open>
  Python indexing of a sequence of length \<open>n\<close> by an integer: a negative index counts
  from the end, and an index outside \<open>-n .. n-1\<close> raises \<^verbatim>\<open>IndexError\<close>.
\<close>

definition py_index :: "nat \<Rightarrow> int \<Rightarrow> py_error + nat" where
  "py_index n k =
     (if 0 \<le> k \<and> k < int n then Inr (nat k)
      else if - int n \<le> k \<and> k < 0 then Inr (nat (k + int n))
      else Inl IndexError)"

text \<open>\<^verbatim>\<open>xs[k] = v\<close> on a one-dimensional array, or \<^verbatim>\<open>aux[k,:] = row\<close> on a matrix.\<close>

definition py_setitem :: "'a list \<Rightarrow> int \<Rightarrow> 'a \<Rightarrow> py_error + 'a list" where
  "py_setitem xs k v = bind_err (py_index (length xs) k) (\<lambda>j. Inr (xs[j := v]))"

section \<open>Quadrature engine\<close>

text \<open>
  \<^verbatim>\<open>np.linspace(start, stop, num)\<close>: \<open>num\<close> evenly spaced samples with both end points;
  a single sample is \<open>start\<close>.
\<close>

definition linspace :: "real \<Rightarrow> real \<Rightarrow> nat \<Rightarrow> real list" where
  "linspace start stop num =
     (if num = 1 then [start]
      else map (\<lambda>i. start + real i * ((stop - start) / real (num - 1))) [0..<num])"

text \<open>
  The weight vector of one axis, as written four times in the source
  (\<^verbatim>\<open>h_rho=h/N_rho; weight_rho=np.zeros(N_rho)+h_rho; weight_rho[0]=h_rho/2;
  weight_rho[-1]=h_rho/2\<close>). The division of Python scalars raises on a zero count.
\<close>

definition trapezoid_weight :: "real \<Rightarrow> nat \<Rightarrow> py_error + real list" where
  "trapezoid_weight L N =
     (if N = 0 then Inl ZeroDivisionError
      else let h = L / real N; weight = replicate N h in
        bind_err (py_setitem weight 0 (h / 2)) (\<lambda>weight.
        py_setitem weight (- 1) (h / 2)))"

text \<open>
  \<^verbatim>\<open>weight = weight_rho*np.vstack(weight_phi)\<close>: \<^verbatim>\<open>vstack\<close> turns the second vector into
  a column, and broadcasting gives one row per entry of \<open>weight_phi\<close>.
\<close>

definition weight_2d :: "real list \<Rightarrow> real list \<Rightarrow> real list list" where
  "weight_2d weight_rho weight_phi = map (\<lambda>p. map (\<lambda>r. r * p) weight_rho) weight_phi"

section \<open>Angular-grid rotator\<close>

text \<open>\<^verbatim>\<open>a,b=np.shape(matrix)\<close> for a two-dimensional array held as its list of rows.\<close>

definition shape_rows :: "'a list list \<Rightarrow> nat" where
  "shape_rows matrix = length matrix"

definition shape_cols :: "'a list list \<Rightarrow> nat" where
  "shape_cols matrix = (case matrix of [] \<Rightarrow> 0 | r # _ \<Rightarrow> length r)"

text \<open>
  \<^verbatim>\<open>int(a/2)\<close> and \<^verbatim>\<open>int(3*a/4)\<close> truncate a non-negative quotient, which is integer
  division. The loop writes row \<open>i\<close> of the input at index \<open>i - offset\<close> of a zero
  matrix; a negative index counts from the end.
\<close>

definition rotate_rows :: "nat \<Rightarrow> cmatrix \<Rightarrow> py_error + cmatrix" where
  "rotate_rows offset matrix =
     (let a = shape_rows matrix; b = shape_cols matrix;
          aux = replicate a (replicate b 0)
      in for_loop [0..<a] (\<lambda>i aux. py_setitem aux (int i - int offset) (matrix ! i)) aux)"

definition rotate_180 :: "cmatrix \<Rightarrow> py_error + cmatrix" where
  "rotate_180 matrix = rotate_rows (shape_rows matrix div 2) matrix"

definition rotate_270 :: "cmatrix \<Rightarrow> py_error + cmatrix" where
  "rotate_270 matrix = rotate_rows (3 * shape_rows matrix div 4) matrix"

text \<open>A list of rows is a two-dimensional array when all rows have one length.\<close>

definition rectangular :: "'a list list \<Rightarrow> bool" where
  "rectangular matrix = (\<forall>r \<in> set matrix. length r = shape_cols matrix)"

text \<open>The index that \<^verbatim>\<open>aux[i-offset,:]\<close> writes, once Python has resolved a negative one.\<close>

definition wrap_back :: "nat \<Rightarrow> nat \<Rightarrow> nat \<Rightarrow> nat" where
  "wrap_back a off i = (if off \<le> i then i - off else i + a - off)"

section \<open>Array helpers\<close>

text \<open>\<^verbatim>\<open>np.zeros((r,c))\<close>, one cell assignment \<^verbatim>\<open>M[j,i] = v\<close> with both indices in range,
  the in-place scaling \<^verbatim>\<open>M *= c\<close>, and \<^verbatim>\<open>np.sum\<close> over all cells.\<close>

definition zeros :: "nat \<Rightarrow> nat \<Rightarrow> cmatrix" where
  "zeros r c = replicate r (replicate c 0)"

definition mat_set :: "'a list list \<Rightarrow> nat \<Rightarrow> nat \<Rightarrow> 'a \<Rightarrow> 'a list list" where
  "mat_set M j i v = M[j := (M ! j)[i := v]]"

definition mat_scale :: "complex \<Rightarrow> cmatrix \<Rightarrow> cmatrix" where
  "mat_scale c M = map (map (\<lambda>z. z * c)) M"

definition sum_all :: "cmatrix \<Rightarrow> complex" where
  "sum_all M = sum_list (map sum_list M)"

text \<open>
  \<^verbatim>\<open>np.meshgrid(xs, ys)\<close> gives two arrays with one row per entry of \<open>ys\<close> and one column
  per entry of \<open>xs\<close>. An elementwise numpy expression over the two arrays is that
  expression evaluated at every node.
\<close>

definition meshgrid_map :: "(real \<Rightarrow> real \<Rightarrow> 'a) \<Rightarrow> real list \<Rightarrow> real list \<Rightarrow> 'a list list" where
  "meshgrid_map f xs ys = map (\<lambda>y. map (\<lambda>x. f x y) xs) ys"

text \<open>A list comprehension whose element expression may raise.\<close>

fun map_err :: "('a \<Rightarrow> py_error + 'b) \<Rightarrow> 'a list \<Rightarrow> py_error + 'b list" where
  "map_err f [] = Inr []"
| "map_err f (x # xs) =
     bind_err (f x) (\<lambda>y. bind_err (map_err f xs) (\<lambda>ys. Inr (y # ys)))"

text \<open>
  The elementwise product \<^verbatim>\<open>A*B\<close> of two arrays with numpy's broadcasting: along each
  axis the lengths agree or one of them is 1 (that operand is repeated); anything else
  raises \<^verbatim>\<open>ValueError\<close>. Arrays without rows, whose column count a list of rows does
  not record, are outside this model.
\<close>

definition broadcast :: "('a \<Rightarrow> 'b \<Rightarrow> py_error + 'c) \<Rightarrow> 'a list \<Rightarrow> 'b list \<Rightarrow> py_error + 'c list" where
  "broadcast f xs ys =
     (if length xs = length ys then map_err (\<lambda>(x, y). f x y) (zip xs ys)
      else if length xs = 1 then map_err (f (hd xs)) ys
      else if length ys = 1 then map_err (\<lambda>x. f x (hd ys)) xs
      else Inl ValueError)"

definition mat_mul :: "cmatrix \<Rightarrow> cmatrix \<Rightarrow> py_error + cmatrix" where
  "mat_mul A B = broadcast (broadcast (\<lambda>x y. Inr (x * y))) A B"

text \<open>The product of two arrays that the function built itself on one grid.\<close>

definition mat_times :: "cmatrix \<Rightarrow> cmatrix \<Rightarrow> cmatrix" where
  "mat_times A B = map2 (map2 (*)) A B"

text \<open>
  \<^verbatim>\<open>np.arctan2(y, x)\<close>: the angle of the point \<open>(x, y)\<close> in \<open>(-pi, pi]\<close>, and 0 at the
  origin.
\<close>

definition arctan2 :: "real \<Rightarrow> real \<Rightarrow> real" where
  "arctan2 y x =
     (if 0 < x then arctan (y / x)
      else if x < 0 \<and> 0 \<le> y then arctan (y / x) + pi
      else if x < 0 then arctan (y / x) - pi
      else if 0 < y then pi / 2
      else if y < 0 then - pi / 2
      else 0)"

text \<open>
  \<^verbatim>\<open>xs.argmin()\<close>: the first index of the least entry; an empty array raises
  \<^verbatim>\<open>ValueError\<close>.
\<close>

fun argmin_from :: "real list \<Rightarrow> nat \<Rightarrow> nat \<Rightarrow> real \<Rightarrow> nat" where
  "argmin_from [] i best v = best"
| "argmin_from (x # xs) i best v =
     (if x < v then argmin_from xs (Suc i) i x else argmin_from xs (Suc i) best v)"

definition np_argmin :: "real list \<Rightarrow> py_error + nat" where
  "np_argmin xs = (case xs of [] \<Rightarrow> Inl ValueError | x # rest \<Rightarrow> Inr (argmin_from rest 1 0 x))"

section \<open>Mask evaluator\<close>

text \<open>
  The mask is a Python callable passed in by the caller. It is applied to a tuple of
  positional arguments and returns a complex amplitude or raises; a function declared
  with \<open>n\<close> parameters raises \<^verbatim>\<open>TypeError\<close> on any other number of arguments. Called on
  grids, it is evaluated at every node.
\<close>

type_synonym py_callable = "real list \<Rightarrow> py_error + complex"

definition def2 :: "(real \<Rightarrow> real \<Rightarrow> complex) \<Rightarrow> py_callable" where
  "def2 f args = (case args of [a, b] \<Rightarrow> Inr (f a b) | _ \<Rightarrow> Inl TypeError)"

definition def4 :: "(real \<Rightarrow> real \<Rightarrow> real \<Rightarrow> real \<Rightarrow> complex) \<Rightarrow> py_callable" where
  "def4 f args = (case args of [a, b, c, d] \<Rightarrow> Inr (f a b c d) | _ \<Rightarrow> Inl TypeError)"

definition def5 :: "(real \<Rightarrow> real \<Rightarrow> real \<Rightarrow> real \<Rightarrow> real \<Rightarrow> complex) \<Rightarrow> py_callable" where
  "def5 f args = (case args of [a, b, c, d, e] \<Rightarrow> Inr (f a b c d e) | _ \<Rightarrow> Inl TypeError)"

section \<open>Incident field on the lens\<close>

text \<open>
  \<^verbatim>\<open>generate_incident_field\<close> (lines 17-39). \<^verbatim>\<open>I0**0.5\<close> is the square root of a
  non-negative intensity. The parameter \<open>h\<close> is not used by the source.
\<close>

definition generate_incident_field ::
  "py_callable \<Rightarrow> real \<Rightarrow> real \<Rightarrow> nat \<Rightarrow> nat \<Rightarrow> real \<Rightarrow> real \<Rightarrow> real \<Rightarrow> real \<Rightarrow> real \<Rightarrow> real
     \<Rightarrow> py_error + cmatrix \<times> cmatrix" where
  "generate_incident_field maskfunction alpha focus resolution_phi resolution_theta h
       psi delta radius I0 wavelength =
     (if wavelength = 0 then Inl ZeroDivisionError
      else
        let k = 2 * pi / wavelength;
            gaussian = (\<lambda>rho. exp (- ((rho / radius)\<^sup>2)));
            ex_lens = zeros resolution_phi resolution_theta;
            ey_lens = zeros resolution_phi resolution_theta;
            theta_values = linspace 0 alpha resolution_theta;
            rhop_values = map (\<lambda>t. sin t * focus) theta_values;
            phip_values = linspace 0 (2 * pi) resolution_phi
        in bind_err
             (for_loop (enumerate 0 phip_values) (\<lambda>(i, phip).
                for_loop (enumerate 0 rhop_values) (\<lambda>(j, rhop) (ex_lens, ey_lens).
                  bind_err (maskfunction [rhop, phip, radius, focus, k]) (\<lambda>phase.
                    Inr (mat_set ex_lens i j (complex_of_real (gaussian rhop) * phase),
                         mat_set ey_lens i j (complex_of_real (gaussian rhop) * phase)))))
                (ex_lens, ey_lens))
             (\<lambda>(ex_lens, ey_lens).
                Inr (mat_scale (complex_of_real (cos (psi * pi / 180) * sqrt I0)) ex_lens,
                     mat_scale (complex_of_real (sin (psi * pi / 180))
                                  * exp (\<i> * complex_of_real delta * complex_of_real pi / 180)
                                  * complex_of_real (sqrt I0)) ey_lens)))"

section \<open>Polar-to-Cartesian resampler\<close>

text \<open>
  The numeric part of \<^verbatim>\<open>plot_in_cartesian\<close> (lines 45-70 and the return). The shape
  \<^verbatim>\<open>np.shape(Ex)\<close> is passed with the array; the fields \<^verbatim>\<open>Ex\<close>, \<^verbatim>\<open>Ey\<close> are named
  \<open>Ex_polar\<close>, \<open>Ey_polar\<close>. One cell of the double loop:
\<close>

definition plot_cell ::
  "cmatrix \<Rightarrow> cmatrix \<Rightarrow> real \<Rightarrow> real list \<Rightarrow> real list \<Rightarrow> nat \<Rightarrow> real \<Rightarrow> nat \<Rightarrow> real
     \<Rightarrow> cmatrix \<times> cmatrix \<Rightarrow> py_error + cmatrix \<times> cmatrix" where
  "plot_cell Ex_polar Ey_polar xmax rhop_values phip_values i x j y =
     (\<lambda>(Ex_cartesian, Ey_cartesian).
        let rhop = sqrt (x\<^sup>2 + y\<^sup>2);
            phip = arctan2 y x;
            phip = (if phip < 0 then phip + 2 * pi else phip)
        in if rhop < xmax then
             bind_err (np_argmin (map (\<lambda>r. \<bar>r - rhop\<bar>) rhop_values)) (\<lambda>id_rho.
             bind_err (np_argmin (map (\<lambda>p. \<bar>p - phip\<bar>) phip_values)) (\<lambda>id_phi.
               Inr (mat_set Ex_cartesian j i (Ex_polar ! id_phi ! id_rho),
                    mat_set Ey_cartesian j i (Ey_polar ! id_phi ! id_rho))))
           else Inr (Ex_cartesian, Ey_cartesian))"

text \<open>
  The matplotlib calls are not modelled, except that the slice
  \<^verbatim>\<open>I_cartesian[resolution_theta,:]\<close> they plot raises on an array without rows.
\<close>

definition plot_in_cartesian ::
  "nat \<times> nat \<Rightarrow> cmatrix \<Rightarrow> cmatrix \<Rightarrow> real \<Rightarrow> real \<Rightarrow> real
     \<Rightarrow> py_error + real list list \<times> cmatrix \<times> cmatrix" where
  "plot_in_cartesian shape Ex_polar Ey_polar xmax alpha focus =
     (let resolution_phi = fst shape; resolution_theta = snd shape;
          x_values = linspace (- xmax) xmax (2 * resolution_theta);
          y_values = linspace xmax (- xmax) (2 * resolution_theta);
          Ex_cartesian = zeros (2 * resolution_theta) (2 * resolution_theta);
          Ey_cartesian = zeros (2 * resolution_theta) (2 * resolution_theta);
          theta_values = linspace 0 alpha resolution_theta;
          rhop_values = map (\<lambda>t. sin t * focus) theta_values;
          phip_values = linspace 0 (2 * pi) resolution_phi
      in bind_err
           (for_loop (enumerate 0 x_values) (\<lambda>(i, x).
              for_loop (enumerate 0 y_values) (\<lambda>(j, y).
                plot_cell Ex_polar Ey_polar xmax rhop_values phip_values i x j y))
              (Ex_cartesian, Ey_cartesian))
           (\<lambda>(Ex_cartesian, Ey_cartesian).
              let I_cartesian = map2 (map2 (\<lambda>a b. (cmod a)\<^sup>2 + (cmod b)\<^sup>2))
                                  Ex_cartesian Ey_cartesian
              in if resolution_theta = 0 then Inl IndexError
                 else Inr (I_cartesian, Ex_cartesian, Ey_cartesian)))"

section \<open>Lens-plane field synthesizer\<close>

text \<open>
  \<^verbatim>\<open>custom_mask_objective_field\<close> (lines 132-191). The prefactor (line 174) calls the
  mask with five arguments at every node of the pupil grid; the fields \<^verbatim>\<open>Ex\<close>, \<^verbatim>\<open>Ey\<close>
  are named \<open>Ex_field\<close>, \<open>Ey_field\<close>. The parameters \<^verbatim>\<open>fig_name\<close> and \<^verbatim>\<open>plot\<close> reach
  only the plotting calls and are left out, as are the line the function prints, the
  progress bar and the pause.
\<close>

definition objective_prefactor ::
  "py_callable \<Rightarrow> real list \<Rightarrow> real list \<Rightarrow> real list list \<Rightarrow> real \<Rightarrow> real \<Rightarrow> real \<Rightarrow> real
     \<Rightarrow> real \<Rightarrow> py_error + cmatrix" where
  "objective_prefactor mask_function rho_values phi_values weight radius focus k kl L =
     map_err (\<lambda>(j, phi).
        map_err (\<lambda>(i, rho).
          bind_err (mask_function [rho, phi, radius, focus, k]) (\<lambda>m.
            Inr (complex_of_real rho
                 * exp (complex_of_real (- ((rho / radius)\<^sup>2))
                        + \<i> * complex_of_real (k * L + kl * rho\<^sup>2))
                 * m * complex_of_real (weight ! j ! i))))
          (enumerate 0 rho_values))
       (enumerate 0 phi_values)"

definition custom_mask_objective_field ::
  "real \<Rightarrow> real \<Rightarrow> nat \<Rightarrow> nat \<Rightarrow> nat \<Rightarrow> nat \<Rightarrow> real \<Rightarrow> py_callable \<Rightarrow> real \<Rightarrow> real \<Rightarrow> real
     \<Rightarrow> real \<Rightarrow> real
     \<Rightarrow> py_error + cmatrix \<times> cmatrix \<times> real list list \<times> cmatrix \<times> cmatrix" where
  "custom_mask_objective_field psi delta resolution_theta resolution_phi N_rho N_phi alpha
       mask_function h L I0 Lambda radius =
     (let focus = h / sin alpha;
          rho_values = linspace 0 h N_rho;
          phi_values = linspace 0 (2 * pi) N_phi
      in bind_err (trapezoid_weight h N_rho) (\<lambda>weight_rho.
         bind_err (trapezoid_weight (2 * pi) N_phi) (\<lambda>weight_phi.
         let weight = weight_2d weight_rho weight_phi;
             theta_values = linspace 0 alpha resolution_theta;
             rhop_values = map (\<lambda>t. sin t * focus) theta_values;
             phip_values = linspace 0 (2 * pi) resolution_phi;
             Ex_field = zeros resolution_phi resolution_theta
         in if Lambda = 0 \<or> L = 0 then Inl ZeroDivisionError
            else
              let kl = pi / Lambda / L;
                  k = 2 * pi / Lambda
              in bind_err (objective_prefactor mask_function rho_values phi_values weight
                             radius focus k kl L) (\<lambda>prefactor.
                 bind_err
                   (for_loop [0..<resolution_phi] (\<lambda>j.
                      let phip = phip_values ! j
                      in for_loop (enumerate 0 rhop_values) (\<lambda>(i, rhop) Ex_field.
                           let phase = meshgrid_map (\<lambda>rho phi.
                                 exp (\<i> * complex_of_real k * complex_of_real (rhop\<^sup>2) / 2
                                        / complex_of_real L)
                                 * exp (- \<i> * complex_of_real
                                          (kl * (2 * rho * rhop * cos (phi - phip)))))
                                 rho_values phi_values
                           in Inr (mat_set Ex_field j i (sum_all (mat_times prefactor phase)))))
                      Ex_field)
                   (\<lambda>Ex_field.
                      let Ex_field = mat_scale (- \<i> / complex_of_real Lambda / complex_of_real L)
                                       Ex_field;
                          Ey_field = mat_scale (exp (\<i> * complex_of_real pi / 180
                                                       * complex_of_real delta)) Ex_field;
                          Ex_field = mat_scale (complex_of_real (cos (pi / 180 * psi) * sqrt I0))
                                       Ex_field;
                          Ey_field = mat_scale (complex_of_real (sin (pi / 180 * psi) * sqrt I0))
                                       Ey_field
                      in bind_err (plot_in_cartesian (resolution_phi, resolution_theta)
                                     Ex_field Ey_field h alpha focus)
                           (\<lambda>(I_cartesian, Ex_cartesian, Ey_cartesian).
                              Inr (Ex_field, Ey_field, I_cartesian, Ex_cartesian,
                                   Ey_cartesian)))))))"

text \<open>
  \<^verbatim>\<open>test_custom_mask_objective_field\<close> (lines 193-251), the quick run. Its prefactor
  (line 233) calls the mask with the two grids only. Its last statement calls
  \<^verbatim>\<open>plot_in_cartesian\<close> with five arguments where six are required, which raises
  \<^verbatim>\<open>TypeError\<close>.
\<close>

definition test_prefactor ::
  "py_callable \<Rightarrow> real list \<Rightarrow> real list \<Rightarrow> real list list \<Rightarrow> real \<Rightarrow> py_error + cmatrix" where
  "test_prefactor mask_function rho_values phi_values weight radius =
     map_err (\<lambda>(j, phi).
        map_err (\<lambda>(i, rho).
          bind_err (mask_function [rho, phi]) (\<lambda>m.
            Inr (complex_of_real rho * complex_of_real (exp (- ((rho / radius)\<^sup>2)))
                 * m * complex_of_real (weight ! j ! i))))
          (enumerate 0 rho_values))
       (enumerate 0 phi_values)"

definition test_custom_mask_objective_field ::
  "real \<Rightarrow> real \<Rightarrow> nat \<Rightarrow> nat \<Rightarrow> nat \<Rightarrow> nat \<Rightarrow> real \<Rightarrow> py_callable \<Rightarrow> real \<Rightarrow> real \<Rightarrow> real
     \<Rightarrow> real \<Rightarrow> real
     \<Rightarrow> py_error + cmatrix \<times> cmatrix \<times> real list list \<times> cmatrix \<times> cmatrix" where
  "test_custom_mask_objective_field psi delta resolution_theta resolution_phi N_rho N_phi
       alpha mask_function h L I0 Lambda radius =
     (let focus = h / sin alpha;
          rho_values = linspace 0 h N_rho;
          phi_values = linspace 0 (2 * pi) N_phi
      in bind_err (trapezoid_weight h N_rho) (\<lambda>weight_rho.
         bind_err (trapezoid_weight (2 * pi) N_phi) (\<lambda>weight_phi.
         let weight = weight_2d weight_rho weight_phi;
             resolution_phi = resolution_phi div 20;
             theta_values = linspace 0 alpha resolution_theta;
             rhop_values = map (\<lambda>t. sin t * focus) theta_values;
             phip_values = linspace 0 (pi / 20) resolution_phi;
             Ex_field = zeros resolution_phi resolution_theta
         in if Lambda = 0 \<or> L = 0 then Inl ZeroDivisionError
            else
              let kl = pi / Lambda / L;
                  k = 2 * pi / Lambda
              in bind_err (test_prefactor mask_function rho_values phi_values weight radius)
                   (\<lambda>prefactor.
                 bind_err
                   (for_loop [0..<resolution_phi] (\<lambda>j.
                      let phip = phip_values ! j
                      in for_loop (enumerate 0 rhop_values) (\<lambda>(i, rhop) Ex_field.
                           let phase = meshgrid_map (\<lambda>rho phi.
                                 exp (\<i> * complex_of_real k
                                        * complex_of_real (L + rhop\<^sup>2 / 2 / L))
                                 * exp (\<i> * complex_of_real
                                          (kl * (rho\<^sup>2 - 2 * rho * rhop * cos (phi - phip)))))
                                 rho_values phi_values
                           in Inr (mat_set Ex_field j i (sum_all (mat_times prefactor phase)))))
                      Ex_field)
                   (\<lambda>Ex_field. Inl TypeError)))))"

section \<open>Focal-region vector field synthesizer\<close>

text \<open>
  The six coupling arrays \<^verbatim>\<open>Axx .. Ayz\<close> (lines 322-340, repeated as lines 450-468):
  trigonometric prefactors on the integration grid, times the rotated lens field, times
  the weight field. The lens fields come from the caller, so their products broadcast.
  \<^verbatim>\<open>cos_theta**0.5\<close> is the square root of a cosine that is non-negative for an aperture
  half-angle of at most a right angle.
\<close>

record coupling =
  Axx :: cmatrix
  Axy :: cmatrix
  Axz :: cmatrix
  Ayx :: cmatrix
  Ayy :: cmatrix
  Ayz :: cmatrix

definition coupling_arrays ::
  "cmatrix \<Rightarrow> cmatrix \<Rightarrow> real list list \<Rightarrow> real list \<Rightarrow> real list \<Rightarrow> py_error + coupling" where
  "coupling_arrays ex_lens ey_lens weight_trapezoid theta_values phi_values =
     (let prefactor_general = (\<lambda>theta phi. sqrt (cos theta) * sin theta);
          prefactor_x = meshgrid_map (\<lambda>theta phi. complex_of_real
             (prefactor_general theta phi * (cos theta + (1 - cos theta) * (sin phi)\<^sup>2)))
             theta_values phi_values;
          prefactor_y = meshgrid_map (\<lambda>theta phi. complex_of_real
             (prefactor_general theta phi * (1 - cos theta) * cos phi * sin phi))
             theta_values phi_values;
          prefactor_z = meshgrid_map (\<lambda>theta phi. complex_of_real
             (prefactor_general theta phi * sin theta * cos phi))
             theta_values phi_values;
          weight = map (map complex_of_real) weight_trapezoid;
          times3 = (\<lambda>P E. bind_err (mat_mul P E) (\<lambda>PE. mat_mul PE weight))
      in bind_err (times3 prefactor_x ex_lens) (\<lambda>axx.
         bind_err (times3 prefactor_y ex_lens) (\<lambda>axy.
         bind_err (times3 prefactor_z ex_lens) (\<lambda>axz.
         bind_err (times3 prefactor_y ey_lens) (\<lambda>ayx.
         bind_err (times3 (mat_scale (- 1) prefactor_x) ey_lens) (\<lambda>ayy.
         bind_err (times3 prefactor_z ey_lens) (\<lambda>ayz.
           Inr \<lparr>Axx = axx, Axy = axy, Axz = axz, Ayx = ayx, Ayy = ayy, Ayz = ayz\<rparr>)))))))"

text \<open>
  The sums of one output point (lines 355-357, repeated in every loop body): each
  component adds the contribution of the two incident polarizations.
\<close>

definition field_sums :: "coupling \<Rightarrow> cmatrix \<Rightarrow> cmatrix \<Rightarrow> py_error + complex \<times> complex \<times> complex" where
  "field_sums A phase_inc_x phase_inc_y =
     (let sum_of = (\<lambda>M phase. bind_err (mat_mul M phase) (\<lambda>P. Inr (sum_all P)))
      in bind_err (sum_of (Axx A) phase_inc_x) (\<lambda>xx.
         bind_err (sum_of (Ayx A) phase_inc_y) (\<lambda>yx.
         bind_err (sum_of (Axy A) phase_inc_x) (\<lambda>xy.
         bind_err (sum_of (Ayy A) phase_inc_y) (\<lambda>yy.
         bind_err (sum_of (Axz A) phase_inc_x) (\<lambda>xz.
         bind_err (sum_of (Ayz A) phase_inc_y) (\<lambda>yz.
           Inr (xx + yx, xy + yy, xz + yz))))))))"

text \<open>The two phase kernels of an output point with polar position \<open>(rhop, phip)\<close>.\<close>

definition phase_kernels ::
  "real list \<Rightarrow> real list \<Rightarrow> real \<Rightarrow> real \<Rightarrow> real \<Rightarrow> real \<Rightarrow> cmatrix \<times> cmatrix" where
  "phase_kernels theta_values phi_values Lambda kz rhop phip =
     (let kr = rhop * 2 * pi / Lambda;
          phase_inc_x = meshgrid_map (\<lambda>theta phi.
             exp (\<i> * complex_of_real (sin theta * kr * cos (phi - phip) + cos theta * kz)))
             theta_values phi_values;
          phase_inc_y = meshgrid_map (\<lambda>theta phi.
             exp (\<i> * complex_of_real (- (sin theta * kr) * sin (phi - phip) + cos theta * kz)))
             theta_values phi_values
      in (phase_inc_x, phase_inc_y))"

text \<open>
  The inner loop over \<open>y\<close> of \<^verbatim>\<open>custom_mask_focus_field\<close>. Its text is the same in the
  two branches of \<^verbatim>\<open>if countdown==True\<close> (lines 347-357 and 360-370).
\<close>

definition xy_column ::
  "coupling \<Rightarrow> real list \<Rightarrow> real list \<Rightarrow> real \<Rightarrow> real \<Rightarrow> real list \<Rightarrow> nat \<Rightarrow> real
     \<Rightarrow> cmatrix \<times> cmatrix \<times> cmatrix \<Rightarrow> py_error + cmatrix \<times> cmatrix \<times> cmatrix" where
  "xy_column A theta_values phi_values Lambda kz y_values i x =
     for_loop (enumerate 0 y_values) (\<lambda>(j, y) (ex, ey, ez).
       let rhop = sqrt (x\<^sup>2 + y\<^sup>2);
           phip = arctan2 y x;
           (phase_inc_x, phase_inc_y) = phase_kernels theta_values phi_values Lambda kz rhop phip
       in bind_err (field_sums A phase_inc_x phase_inc_y) (\<lambda>(vx, vy, vz).
            Inr (mat_set ex j i vx, mat_set ey j i vy, mat_set ez j i vz)))"

text \<open>
  \<^verbatim>\<open>custom_mask_focus_field\<close> (lines 253-376). The result carries what the function
  printed on standard output; the progress bar of \<^verbatim>\<open>tqdm\<close> is not output of the
  program's own and is left out.
\<close>

definition custom_mask_focus_field ::
  "cmatrix \<Rightarrow> cmatrix \<Rightarrow> real \<Rightarrow> real \<Rightarrow> real \<Rightarrow> real \<Rightarrow> nat \<Rightarrow> nat \<Rightarrow> nat \<Rightarrow> real \<Rightarrow> bool
     \<Rightarrow> real \<Rightarrow> real \<Rightarrow> py_error + string list \<times> cmatrix \<times> cmatrix \<times> cmatrix" where
  "custom_mask_focus_field ex_lens ey_lens alpha h Lambda zp0 resolution_focus
       resolution_theta resolution_phi FOV_focus countdown x0 y0 =
     (let printed = (if countdown then [''Calculating field at the focal plane:''] else []);
          Lambda = Lambda * 10 ^ 6;
          focus = h / sin alpha * 10 ^ 6
      in bind_err (rotate_180 ex_lens) (\<lambda>ex_lens.
         bind_err (rotate_270 ey_lens) (\<lambda>ey_lens.
         bind_err (trapezoid_weight alpha resolution_theta) (\<lambda>weight_trapezoid_rho.
         bind_err (trapezoid_weight (2 * pi) resolution_phi) (\<lambda>weight_trapezoid_phi.
         let weight_trapezoid = weight_2d weight_trapezoid_rho weight_trapezoid_phi;
             xmax = FOV_focus / 2;
             x_values = linspace (- xmax + x0) (xmax + x0) resolution_focus;
             y_values = linspace (xmax + y0) (- xmax + y0) resolution_focus;
             ex = zeros resolution_focus resolution_focus;
             ey = ex;
             ez = ex;
             theta_values = linspace 0 alpha resolution_theta;
             phi_values = linspace 0 (2 * pi) resolution_phi
         in if Lambda = 0 then Inl ZeroDivisionError
            else
              let kz = zp0 * 2 * pi / Lambda
              in bind_err (coupling_arrays ex_lens ey_lens weight_trapezoid theta_values
                             phi_values) (\<lambda>A.
                 bind_err
                   (if countdown
                    then for_loop [0..<resolution_focus] (\<lambda>i.
                           let x = x_values ! i
                           in xy_column A theta_values phi_values Lambda kz y_values i x)
                           (ex, ey, ez)
                    else for_loop (enumerate 0 x_values) (\<lambda>(i, x).
                           xy_column A theta_values phi_values Lambda kz y_values i x)
                           (ex, ey, ez))
                   (\<lambda>(ex, ey, ez).
                      Inr (printed,
                           mat_scale (- \<i> * complex_of_real focus / complex_of_real Lambda) ex,
                           mat_scale (\<i> * complex_of_real focus / complex_of_real Lambda) ey,
                           mat_scale (\<i> * complex_of_real focus / complex_of_real Lambda) ez))))))))"

text \<open>
  \<^verbatim>\<open>custom_mask_focus_field_XZ_XY\<close> (lines 378-509). Line 390 makes the axial sample
  count odd; line 438 builds the axial grid.
\<close>

definition odd_resolution_z :: "nat \<Rightarrow> nat" where
  "odd_resolution_z resolution_z = (if resolution_z mod 2 = 0 then resolution_z + 1 else resolution_z)"

definition z_values_of :: "real \<Rightarrow> nat \<Rightarrow> real list" where
  "z_values_of z_FOV resolution_z = linspace (z_FOV / 2) (- z_FOV / 2) resolution_z"

text \<open>The loop body of the \<^verbatim>\<open>plot_plane=='X'\<close> branch and of the \<^verbatim>\<open>plot_plane=='Y'\<close> branch.\<close>

definition xz_row ::
  "bool \<Rightarrow> coupling \<Rightarrow> real list \<Rightarrow> real list \<Rightarrow> real \<Rightarrow> real list \<Rightarrow> nat \<Rightarrow> real
     \<Rightarrow> cmatrix \<times> cmatrix \<times> cmatrix \<Rightarrow> py_error + cmatrix \<times> cmatrix \<times> cmatrix" where
  "xz_row along_x A theta_values phi_values Lambda x_values j zp0 =
     for_loop (enumerate 0 x_values) (\<lambda>(i, x) (Ex_XZ, Ey_XZ, Ez_XZ).
       let rhop = \<bar>x\<bar>;
           phip = (if along_x then arctan2 0 x else arctan2 x 0);
           kz = zp0 * 2 * pi / Lambda;
           (phase_inc_x, phase_inc_y) = phase_kernels theta_values phi_values Lambda kz rhop phip
       in bind_err (field_sums A phase_inc_x phase_inc_y) (\<lambda>(vx, vy, vz).
            Inr (mat_set Ex_XZ j i vx, mat_set Ey_XZ j i vy, mat_set Ez_XZ j i vz)))"

definition options_message :: string where
  "options_message = ''Options for plot_plane are 'X' and 'Y' ''"

definition custom_mask_focus_field_XZ_XY ::
  "cmatrix \<Rightarrow> cmatrix \<Rightarrow> real \<Rightarrow> real \<Rightarrow> real \<Rightarrow> real \<Rightarrow> nat \<Rightarrow> real \<Rightarrow> nat \<Rightarrow> nat \<Rightarrow> nat \<Rightarrow> real
     \<Rightarrow> real \<Rightarrow> real \<Rightarrow> string
     \<Rightarrow> py_error + string list \<times> (cmatrix \<times> cmatrix \<times> cmatrix) \<times> (cmatrix \<times> cmatrix \<times> cmatrix)" where
  "custom_mask_focus_field_XZ_XY ex_lens ey_lens alpha h Lambda z_FOV resolution_z zp0
       resolution_focus resolution_theta resolution_phi FOV_focus x0 y0 plot_plane =
     bind_err (custom_mask_focus_field ex_lens ey_lens alpha h Lambda zp0 resolution_focus
                 resolution_theta resolution_phi FOV_focus True x0 y0)
       (\<lambda>(printed, Ex_XY, Ey_XY, Ez_XY).
     let resolution_z = odd_resolution_z resolution_z;
         Lambda = Lambda * 10 ^ 6;
         focus = h / sin alpha * 10 ^ 6
     in bind_err (rotate_180 ex_lens) (\<lambda>ex_lens.
        bind_err (rotate_270 ey_lens) (\<lambda>ey_lens.
        bind_err (trapezoid_weight alpha resolution_theta) (\<lambda>weight_trapezoid_rho.
        bind_err (trapezoid_weight (2 * pi) resolution_phi) (\<lambda>weight_trapezoid_phi.
        let weight_trapezoid = weight_2d weight_trapezoid_rho weight_trapezoid_phi;
            xmax = FOV_focus * sqrt 2 / 2;
            x_values = linspace (- xmax + x0) (xmax + x0) resolution_focus;
            z_values = z_values_of z_FOV resolution_z;
            Ex_XZ = zeros resolution_z resolution_focus;
            Ey_XZ = Ex_XZ;
            Ez_XZ = Ex_XZ;
            theta_values = linspace 0 alpha resolution_theta;
            phi_values = linspace 0 (2 * pi) resolution_phi
        in bind_err (coupling_arrays ex_lens ey_lens weight_trapezoid theta_values phi_values)
             (\<lambda>A.
           bind_err
             (if plot_plane = ''X''
              then bind_err
                     (for_loop [0..<resolution_z] (\<lambda>j.
                        xz_row True A theta_values phi_values Lambda x_values j (z_values ! j))
                        (Ex_XZ, Ey_XZ, Ez_XZ))
                     (\<lambda>fields. Inr (printed, fields))
              else if plot_plane = ''Y''
              then bind_err
                     (for_loop [0..<resolution_z] (\<lambda>j.
                        xz_row False A theta_values phi_values Lambda x_values j (z_values ! j))
                        (Ex_XZ, Ey_XZ, Ez_XZ))
                     (\<lambda>fields. Inr (printed, fields))
              else Inr (printed @ [options_message], (Ex_XZ, Ey_XZ, Ez_XZ)))
             (\<lambda>(printed, (Ex_XZ, Ey_XZ, Ez_XZ)).
                Inr (printed,
                     (mat_scale (- \<i> * complex_of_real focus / complex_of_real Lambda) Ex_XZ,
                      mat_scale (\<i> * complex_of_real focus / complex_of_real Lambda) Ey_XZ,
                      mat_scale (\<i> * complex_of_real focus / complex_of_real Lambda) Ez_XZ),
                     (Ex_XY, Ey_XY, Ez_XY)))))))))"

section \<open>Specification vocabulary\<close>

text \<open>
  The nearest sample of one polar axis, in the spec's words: an index whose entry has the
  minimum absolute difference to the target; among equal differences, the first.
\<close>

definition nearest_index :: "real list \<Rightarrow> real \<Rightarrow> nat \<Rightarrow> bool" where
  "nearest_index samples target k =
     (k < length samples
      \<and> (\<forall>m<length samples. \<bar>samples ! k - target\<bar> \<le> \<bar>samples ! m - target\<bar>)
      \<and> (\<forall>m<k. \<bar>samples ! k - target\<bar> < \<bar>samples ! m - target\<bar>))"

text \<open>
  The two lens-plane fields are elementwise proportional with the polarization ratio
  \<open>cos psi : sin psi * exp (i delta)\<close> (angles in degrees).
\<close>

definition proportional_fields :: "real \<Rightarrow> real \<Rightarrow> cmatrix \<Rightarrow> cmatrix \<Rightarrow> bool" where
  "proportional_fields psi delta Ex_field Ey_field =
     (length Ey_field = length Ex_field
      \<and> (\<forall>i<length Ex_field. length (Ey_field ! i) = length (Ex_field ! i)
           \<and> (\<forall>j<length (Ex_field ! i).
                 Ex_field ! i ! j * complex_of_real (sin (psi * pi / 180))
                   * exp (\<i> * complex_of_real (delta * pi / 180))
                 = Ey_field ! i ! j * complex_of_real (cos (psi * pi / 180)))))"

text \<open>An array that is identically zero.\<close>

definition all_zero :: "cmatrix \<Rightarrow> bool" where
  "all_zero M = (\<forall>row \<in> set M. \<forall>z \<in> set row. z = 0)"

text \<open>Auxiliary notions for the loops that fill a pair of square arrays cell by cell.\<close>

definition square_pair :: "nat \<Rightarrow> cmatrix \<times> cmatrix \<Rightarrow> bool" where
  "square_pair n s =
     (length (fst s) = n \<and> length (snd s) = n
      \<and> (\<forall>j<n. length (fst s ! j) = n \<and> length (snd s ! j) = n))"

definition cell_pair :: "cmatrix \<times> cmatrix \<Rightarrow> nat \<Rightarrow> nat \<Rightarrow> complex \<times> complex" where
  "cell_pair s j i = (fst s ! j ! i, snd s ! j ! i)"

definition polar_angle :: "real \<Rightarrow> real \<Rightarrow> real" where
  "polar_angle x y = (if arctan2 y x < 0 then arctan2 y x + 2 * pi else arctan2 y x)"

definition resampled_value ::
  "cmatrix \<Rightarrow> cmatrix \<Rightarrow> real list \<Rightarrow> real list \<Rightarrow> real \<Rightarrow> real \<Rightarrow> complex \<times> complex" where
  "resampled_value Ex_polar Ey_polar rhop_values phip_values x y =
     (case (np_argmin (map (\<lambda>r. \<bar>r - sqrt (x\<^sup>2 + y\<^sup>2)\<bar>) rhop_values),
            np_argmin (map (\<lambda>p. \<bar>p - polar_angle x y\<bar>) phip_values)) of
        (Inr id_rho, Inr id_phi) \<Rightarrow> (Ex_polar ! id_phi ! id_rho, Ey_polar ! id_phi ! id_rho)
      | _ \<Rightarrow> (0, 0))"


section \<open>Properties of the sequencing and indexing helpers\<close>

lemma bind_err_simps [simp]:
  "bind_err (Inl e) f = Inl e"
  "bind_err (Inr x) f = f x"
  by (simp_all add: bind_err_def)

lemma for_loop_append:
  "for_loop (xs @ ys) body s = bind_err (for_loop xs body s) (for_loop ys body)"
  by (induction xs arbitrary: s) (auto simp: bind_err_def split: sum.splits)

section \<open>Properties of the angular-grid rotator\<close>


lemma py_index_shift:
  assumes "i < a" "off \<le> a"
  shows "py_index a (int i - int off) = Inr (wrap_back a off i)"
  using assms by (auto simp: py_index_def wrap_back_def nat_diff_distrib' nat_add_distrib)

lemma wrap_back_less: "i < a \<Longrightarrow> off \<le> a \<Longrightarrow> wrap_back a off i < a"
  by (auto simp: wrap_back_def)

lemma mod_shift_cases:
  fixes k a off :: nat
  assumes "k < a" "off \<le> a"
  shows "(k + off) mod a = (if k + off < a then k + off else k + off - a)"
proof (cases "k + off < a")
  case True then show ?thesis by simp
next
  case False
  then have "k + off - a < a" using assms by simp
  moreover have "k + off = (k + off - a) + a" using False by simp
  ultimately have "(k + off) mod a = k + off - a"
    by (metis mod_add_self2 mod_less)
  then show ?thesis using False by simp
qed

lemma shift_index_iff:
  assumes "k < a" "n < a" "off \<le> a"
  shows "k = wrap_back a off n \<longleftrightarrow> (k + off) mod a = n"
  using assms by (auto simp: mod_shift_cases wrap_back_def)

lemma rotate_loop_invariant:
  assumes "off \<le> length matrix" "n \<le> length matrix" "length aux0 = length matrix"
  shows "\<exists>aux. for_loop [0..<n]
            (\<lambda>i aux. py_setitem aux (int i - int off) (matrix ! i)) aux0 = Inr aux
         \<and> length aux = length matrix
         \<and> (\<forall>k<length matrix. aux ! k =
              (if (k + off) mod length matrix < n
               then matrix ! ((k + off) mod length matrix) else aux0 ! k))"
  using assms(2)
proof (induction n)
  case 0
  then show ?case using assms by simp
next
  case (Suc n)
  then have n: "n < length matrix" by simp
  from Suc obtain aux where
    run: "for_loop [0..<n]
            (\<lambda>i aux. py_setitem aux (int i - int off) (matrix ! i)) aux0 = Inr aux"
    and len: "length aux = length matrix"
    and inv: "\<forall>k<length matrix. aux ! k =
              (if (k + off) mod length matrix < n
               then matrix ! ((k + off) mod length matrix) else aux0 ! k)"
    by auto
  let ?j = "wrap_back (length matrix) off n"
  have j: "?j < length matrix" using n assms(1) by (rule wrap_back_less)
  have step: "py_setitem aux (int n - int off) (matrix ! n) = Inr (aux[?j := matrix ! n])"
    by (simp add: py_setitem_def len py_index_shift [OF n assms(1)])
  have "for_loop [0..<Suc n]
            (\<lambda>i aux. py_setitem aux (int i - int off) (matrix ! i)) aux0
        = Inr (aux[?j := matrix ! n])"
    by (simp add: for_loop_append run step)
  moreover have "\<forall>k<length matrix. (aux[?j := matrix ! n]) ! k =
              (if (k + off) mod length matrix < Suc n
               then matrix ! ((k + off) mod length matrix) else aux0 ! k)"
  proof (intro allI impI)
    fix k assume k: "k < length matrix"
    show "(aux[?j := matrix ! n]) ! k =
              (if (k + off) mod length matrix < Suc n
               then matrix ! ((k + off) mod length matrix) else aux0 ! k)"
    proof (cases "k = ?j")
      case True
      then have "(k + off) mod length matrix = n"
        using shift_index_iff [OF k n assms(1)] by simp
      then show ?thesis using True j len by simp
    next
      case False
      then have "(k + off) mod length matrix \<noteq> n"
        using shift_index_iff [OF k n assms(1)] by simp
      then show ?thesis using False inv k by (auto simp: less_Suc_eq)
    qed
  qed
  ultimately show ?case using len by simp
qed

lemma rotate_rows_rotate:
  assumes "off \<le> length matrix"
  shows "rotate_rows off matrix = Inr (rotate off matrix)"
proof -
  let ?a = "length matrix"
  let ?aux0 = "replicate ?a (replicate (shape_cols matrix) (0::complex))"
  from rotate_loop_invariant [OF assms le_refl, of ?aux0]
  obtain aux where
    run: "for_loop [0..<?a]
            (\<lambda>i aux. py_setitem aux (int i - int off) (matrix ! i)) ?aux0 = Inr aux"
    and len: "length aux = ?a"
    and inv: "\<forall>k<?a. aux ! k =
              (if (k + off) mod ?a < ?a then matrix ! ((k + off) mod ?a) else ?aux0 ! k)"
    by auto
  have "aux = rotate off matrix"
  proof (rule nth_equalityI)
    show "length aux = length (rotate off matrix)" using len by simp
  next
    fix k assume "k < length aux"
    then have k: "k < ?a" using len by simp
    then have "0 < ?a" by linarith
    then have "(k + off) mod ?a < ?a" by (rule mod_less_divisor)
    with k have "aux ! k = matrix ! ((k + off) mod ?a)" using inv by simp
    then show "aux ! k = rotate off matrix ! k" using k by (simp add: nth_rotate add.commute)
  qed
  then show ?thesis using run by (simp add: rotate_rows_def shape_rows_def Let_def)
qed

lemma rotate_180_rotate: "rotate_180 M = Inr (rotate (length M div 2) M)"
  by (simp add: rotate_180_def shape_rows_def rotate_rows_rotate)

lemma rotate_270_rotate: "rotate_270 M = Inr (rotate (3 * length M div 4) M)"
  by (simp add: rotate_270_def shape_rows_def rotate_rows_rotate)

lemma shape_cols_rotate:
  assumes "rectangular M"
  shows "shape_cols (rotate n M) = shape_cols M \<and> rectangular (rotate n M)"
proof (cases "M = []")
  case True
  then show ?thesis by (simp add: rectangular_def)
next
  case False
  then have ne: "rotate n M \<noteq> []" by simp
  then have "hd (rotate n M) \<in> set M"
    by (metis hd_in_set set_rotate)
  then have "length (hd (rotate n M)) = shape_cols M"
    using assms by (simp add: rectangular_def)
  moreover have "shape_cols (rotate n M) = length (hd (rotate n M))"
    using ne by (cases "rotate n M") (simp_all add: shape_cols_def)
  ultimately have eq: "shape_cols (rotate n M) = shape_cols M" by simp
  then show ?thesis using assms by (simp add: rectangular_def)
qed

lemma rotate_3_4: "rotate 3 [a, b, c, d] = [d, a, b, c]"
  by (simp add: eval_nat_numeral)

text \<open>
  Claim C1, as amended. For every rectangular matrix with \<open>r\<close> rows, both rotators return
  a matrix of the same shape, and row \<open>i\<close> of the output is row \<open>(i + offset) mod r\<close> of the
  input (equivalently, row \<open>i\<close> of the input lands in row \<open>(i - offset) mod r\<close> of the
  output), where the offset is \<open>r div 2\<close> for the 180 degree rotation and \<open>3 * r div 4\<close>
  for the 270 degree rotation. The rotation is exact: every input row appears, none is
  interpolated or lost.
\<close>

theorem rotate_forward_shift:
  assumes "rectangular M"
  shows "(\<exists>out. rotate_180 M = Inr out \<and> shape_rows out = shape_rows M
            \<and> shape_cols out = shape_cols M \<and> rectangular out
            \<and> (\<forall>i<shape_rows M. out ! i = M ! ((i + shape_rows M div 2) mod shape_rows M)))
       \<and> (\<exists>out. rotate_270 M = Inr out \<and> shape_rows out = shape_rows M
            \<and> shape_cols out = shape_cols M \<and> rectangular out
            \<and> (\<forall>i<shape_rows M. out ! i = M ! ((i + 3 * shape_rows M div 4) mod shape_rows M)))"
  using shape_cols_rotate [OF assms]
  by (simp add: rotate_180_rotate rotate_270_rotate shape_rows_def nth_rotate add.commute)

text \<open>
  Witness for C1: a rectangular matrix with three rows and two columns, rotated by both
  rotators.
\<close>

theorem rotate_forward_shift_witness:
  "rectangular [[1, 2], [3, 4], [5, 6 :: complex]]
   \<and> (\<exists>out. rotate_180 [[1, 2], [3, 4], [5, 6]] = Inr out
          \<and> out ! 0 = [3, 4] \<and> out ! 1 = [5, 6] \<and> out ! 2 = [1, 2])
   \<and> (\<exists>out. rotate_270 [[1, 2], [3, 4], [5, 6]] = Inr out
          \<and> out ! 0 = [5, 6] \<and> out ! 1 = [1, 2] \<and> out ! 2 = [3, 4])"
proof -
  let ?M = "[[1, 2], [3, 4], [5, 6 :: complex]]"
  have r: "rectangular ?M" by (simp add: rectangular_def shape_cols_def)
  have a: "shape_rows ?M = 3" by (simp add: shape_rows_def)
  from rotate_forward_shift [OF r] obtain o1 o2 where
    o1: "rotate_180 ?M = Inr o1"
        "\<forall>i<shape_rows ?M. o1 ! i = ?M ! ((i + shape_rows ?M div 2) mod shape_rows ?M)"
    and o2: "rotate_270 ?M = Inr o2"
        "\<forall>i<shape_rows ?M. o2 ! i = ?M ! ((i + 3 * shape_rows ?M div 4) mod shape_rows ?M)"
    by blast
  have h1: "\<And>i. i < 3 \<Longrightarrow> o1 ! i = ?M ! ((i + 1) mod 3)"
    using o1(2) unfolding a by simp
  have h2: "\<And>i. i < 3 \<Longrightarrow> o2 ! i = ?M ! ((i + 2) mod 3)"
    using o2(2) unfolding a by simp
  have "o1 ! 0 = [3, 4]" "o1 ! 1 = [5, 6]" "o1 ! 2 = [1, 2]"
    using h1 [of 0] h1 [of 1] h1 [of 2] by simp_all
  moreover have "o2 ! 0 = [5, 6]" "o2 ! 1 = [1, 2]" "o2 ! 2 = [3, 4]"
    using h2 [of 0] h2 [of 1] h2 [of 2] by simp_all
  ultimately show ?thesis using r o1(1) o2(1) by simp
qed

text \<open>
  Counterexample for C1 as stated. With four rows the 270 degree rotator has offset 3;
  row 0 of its output is row 3 of the input, not row \<open>(0 - 3) mod 4 = 1\<close>.
\<close>

theorem rotate_270_backward_counterexample:
  "rotate_270 [[0], [1], [2], [3]] = Inr [[3], [0], [1], [2]]
   \<and> [[3], [0], [1], [2::complex]] ! 0 \<noteq> [[0], [1], [2], [3]] ! nat ((0 - 3) mod 4)"
  by (simp add: rotate_270_rotate rotate_3_4)

text \<open>
  Claim C7, as amended. Applying the 180 degree rotation twice returns the original
  matrix when the number of rows is even; when the number \<open>r\<close> of rows is odd it returns
  the original rotated by \<open>r - 1\<close> rows (row \<open>i\<close> of the result is row
  \<open>(i + r - 1) mod r\<close> of the input).
\<close>

theorem rotate_180_twice:
  "bind_err (rotate_180 M) rotate_180
     = Inr (if even (shape_rows M) then M else rotate (shape_rows M - 1) M)"
proof -
  let ?a = "length M"
  have "rotate (?a div 2) (rotate (?a div 2) M) = rotate (?a div 2 + ?a div 2) M"
    by (simp add: rotate_rotate)
  moreover have "even ?a \<Longrightarrow> ?a div 2 + ?a div 2 = ?a" by presburger
  moreover have "odd ?a \<Longrightarrow> ?a div 2 + ?a div 2 = ?a - 1" by presburger
  ultimately show ?thesis
    by (simp add: rotate_180_rotate shape_rows_def)
qed

text \<open>
  Counterexample for C7 as stated: with three rows, rotating twice by 180 degrees moves
  every row and does not return the original matrix.
\<close>

theorem rotate_180_twice_counterexample:
  "bind_err (rotate_180 [[1], [2], [3]]) rotate_180 = Inr [[3], [1], [2]]
   \<and> [[3], [1], [2]] \<noteq> [[1], [2], [3::complex]]"
proof -
  have one: "(3::nat) div 2 = 1" by simp
  have "rotate_180 [[1], [2], [3::complex]] = Inr [[2], [3], [1]]"
    by (simp add: rotate_180_rotate one)
  moreover have "rotate_180 [[2], [3], [1::complex]] = Inr [[3], [1], [2]]"
    by (simp add: rotate_180_rotate one)
  ultimately show ?thesis by simp
qed

section \<open>Properties of the quadrature engine\<close>

lemma trapezoid_weight_value:
  assumes "0 < N"
  shows "trapezoid_weight L N
         = Inr ((replicate N (L / real N))[0 := L / real N / 2, N - 1 := L / real N / 2])"
proof -
  have "py_index N 0 = Inr 0" using assms by (simp add: py_index_def)
  moreover have "py_index N (- 1) = Inr (N - 1)"
    using assms by (auto simp: py_index_def nat_diff_distrib' intro: arg_cong)
  ultimately show ?thesis using assms
    by (simp add: trapezoid_weight_def py_setitem_def Let_def)
qed

lemma replicate_update_last: "(replicate (Suc m) h)[m := e] = replicate m h @ [e]"
  by (induction m) simp_all

lemma trapezoid_weight_shape:
  assumes "2 \<le> N"
  shows "(replicate N h)[0 := e, N - 1 := e] = e # replicate (N - 2) h @ [e]"
proof -
  from assms obtain m where N: "N = Suc (Suc m)"
    by (metis Suc_le_D Suc_le_mono numeral_2_eq_2)
  have "(replicate (Suc (Suc m)) h)[0 := e, Suc m := e] = e # replicate m h @ [e]"
    using replicate_update_last [of m h e] by simp
  then show ?thesis by (simp add: N)
qed

text \<open>
  Claim C5. For sample counts of at least two, the weight vector of each axis has one
  entry per sample, \<open>step / 2\<close> at its first and last index and \<open>step\<close> at every index in
  between, where \<open>step = L / N\<close>; the two-dimensional weight field is the outer product
  of the two vectors (one row per angular sample).
\<close>

theorem quadrature_weights:
  assumes "2 \<le> N_rho" and "2 \<le> N_phi"
  shows "\<exists>weight_rho weight_phi.
           trapezoid_weight L_rho N_rho = Inr weight_rho
         \<and> trapezoid_weight L_phi N_phi = Inr weight_phi
         \<and> length weight_rho = N_rho
         \<and> weight_rho ! 0 = L_rho / real N_rho / 2
         \<and> weight_rho ! (N_rho - 1) = L_rho / real N_rho / 2
         \<and> (\<forall>i. 0 < i \<and> i < N_rho - 1 \<longrightarrow> weight_rho ! i = L_rho / real N_rho)
         \<and> length weight_phi = N_phi
         \<and> weight_phi ! 0 = L_phi / real N_phi / 2
         \<and> weight_phi ! (N_phi - 1) = L_phi / real N_phi / 2
         \<and> (\<forall>j. 0 < j \<and> j < N_phi - 1 \<longrightarrow> weight_phi ! j = L_phi / real N_phi)
         \<and> length (weight_2d weight_rho weight_phi) = N_phi
         \<and> (\<forall>j<N_phi. length (weight_2d weight_rho weight_phi ! j) = N_rho
              \<and> (\<forall>i<N_rho. weight_2d weight_rho weight_phi ! j ! i
                              = weight_rho ! i * weight_phi ! j))"
proof -
  have vec: "\<And>L N. 2 \<le> N \<Longrightarrow>
      (let w = (replicate N (L / real N))[0 := L / real N / 2, N - 1 := L / real N / 2]
       in length w = N \<and> w ! 0 = L / real N / 2 \<and> w ! (N - 1) = L / real N / 2
          \<and> (\<forall>i. 0 < i \<and> i < N - 1 \<longrightarrow> w ! i = L / real N))"
    by (auto simp: Let_def nth_list_update)
  have p1: "0 < N_rho" and p2: "0 < N_phi" using assms by simp_all
  show ?thesis
    using vec [OF assms(1), of L_rho] vec [OF assms(2), of L_phi]
    by (simp add: trapezoid_weight_value [OF p1] trapezoid_weight_value [OF p2]
          Let_def weight_2d_def)
qed

text \<open>Witness for C5: three radial samples on an interval of length 3, two angular ones.\<close>

theorem quadrature_weights_witness:
  "(2::nat) \<le> 3 \<and> (2::nat) \<le> 2
   \<and> trapezoid_weight 3 3 = Inr [1 / 2, 1, 1 / 2]
   \<and> trapezoid_weight 4 2 = Inr [1, 1]
   \<and> weight_2d [1 / 2, 1, 1 / 2] [1, 1] = [[1 / 2, 1, 1 / 2], [1 / 2, 1, 1 / 2]]"
proof -
  have h3: "(2::nat) \<le> 3" and h2: "(2::nat) \<le> 2" by simp_all
  from quadrature_weights [OF h3 h2, of 3 4] obtain wr wp where
    wr: "trapezoid_weight 3 3 = Inr wr" and wp: "trapezoid_weight 4 2 = Inr wp"
    by blast
  have "trapezoid_weight 3 3 = Inr [1 / 2, 1, 1 / 2]"
    by (simp add: trapezoid_weight_value numeral_3_eq_3)
  moreover have "trapezoid_weight 4 2 = Inr [1, 1]"
    by (simp add: trapezoid_weight_value numeral_2_eq_2)
  ultimately show ?thesis using wr wp by (simp add: weight_2d_def)
qed

text \<open>
  Claim C2 says that the weights sum to the interval length \<open>L\<close>. With \<open>step = L / N\<close>
  and two half weights, the weights of the code sum to \<open>L * (N - 1) / N\<close> instead.
\<close>

theorem trapezoid_weight_sum:
  assumes "2 \<le> N"
  shows "\<exists>w. trapezoid_weight L N = Inr w \<and> sum_list w = L * (real N - 1) / real N"
proof -
  let ?h = "L / real N"
  have pos: "0 < N" using assms by simp
  have lin: "\<And>x y :: real. (x - 2) * y + y = (x - 1) * y"
    by (simp add: algebra_simps)
  have "sum_list (?h / 2 # replicate (N - 2) ?h @ [?h / 2]) = real (N - 2) * ?h + ?h"
    by (simp add: sum_list_replicate)
  also have "real (N - 2) = real N - 2" using assms by (simp add: of_nat_diff)
  also have "(real N - 2) * ?h + ?h = (real N - 1) * ?h"
    by (rule lin)
  also have "\<dots> = L * (real N - 1) / real N"
    by (simp only: times_divide_eq_right mult.commute)
  finally have total: "sum_list (?h / 2 # replicate (N - 2) ?h @ [?h / 2])
      = L * (real N - 1) / real N" .
  have "trapezoid_weight L N = Inr (?h / 2 # replicate (N - 2) ?h @ [?h / 2])"
    by (simp only: trapezoid_weight_value [OF pos] trapezoid_weight_shape [OF assms])
  with total show ?thesis by blast
qed

text \<open>
  The sum at \<open>L = 1\<close>, \<open>N = 2\<close>: the two weights are \<open>1 / 4\<close> each, so the sum is \<open>1 / 2\<close>
  and not \<open>1\<close>.
\<close>

theorem trapezoid_weight_sum_witness:
  "(2::nat) \<le> 2 \<and> trapezoid_weight 1 2 = Inr [1 / 4, 1 / 4]
   \<and> sum_list [1 / 4, 1 / 4 :: real] = 1 / 2 \<and> (1 / 2 :: real) \<noteq> 1"
proof -
  have h: "(2::nat) \<le> 2" by simp
  have v: "trapezoid_weight 1 2 = Inr [1 / 4, 1 / 4]"
    by (simp add: trapezoid_weight_value numeral_2_eq_2)
  from trapezoid_weight_sum [OF h, of 1] v show ?thesis by simp
qed

section \<open>Properties of the sample grids and loops\<close>

lemma length_linspace [simp]: "length (linspace a b n) = n"
  by (simp add: linspace_def)


lemma for_loop_map: "for_loop (map g xs) body s = for_loop xs (\<lambda>i. body (g i)) s"
  by (induction xs arbitrary: s) (simp_all add: bind_err_def split: sum.splits)

lemma enumerate_as_map: "enumerate 0 xs = map (\<lambda>i. (i, xs ! i)) [0..<length xs]"
  by (rule nth_equalityI) (simp_all add: nth_enumerate_eq)

lemma for_loop_enumerate:
  "for_loop (enumerate 0 xs) (\<lambda>(i, x). F i x) s = for_loop [0..<length xs] (\<lambda>i. F i (xs ! i)) s"
  by (simp add: enumerate_as_map for_loop_map)

lemma for_loop_enumerate_fst_snd:
  "for_loop (enumerate 0 xs) (\<lambda>p. F (fst p) (snd p)) s
   = for_loop [0..<length xs] (\<lambda>i. F i (xs ! i)) s"
  using for_loop_enumerate [of xs F s] by (simp add: case_prod_unfold)

lemma map_sum_bind_err:
  "map_sum id g (bind_err m f) = bind_err m (\<lambda>x. map_sum id g (f x))"
  by (cases m) simp_all

section \<open>Properties of the focal-region synthesizers\<close>



text \<open>
  Claim C4. The single-plane synthesizer returns the same three arrays \<open>(ex, ey, ez)\<close>,
  or raises the same error, whether \<open>countdown\<close> is true or false; only the printed
  line differs.
\<close>

theorem countdown_same_fields:
  "map_sum id snd (custom_mask_focus_field ex_lens ey_lens alpha h Lambda zp0 resolution_focus
       resolution_theta resolution_phi FOV_focus True x0 y0)
   = map_sum id snd (custom_mask_focus_field ex_lens ey_lens alpha h Lambda zp0
       resolution_focus resolution_theta resolution_phi FOV_focus False x0 y0)"
  by (simp add: custom_mask_focus_field_def Let_def for_loop_enumerate_fst_snd map_sum_bind_err
        if_distrib [of "map_sum id snd"] case_prod_unfold cong: if_cong)

section \<open>The mask call on the quick-test path\<close>

lemma bind_err_Inr_iff: "bind_err m f = Inr y \<longleftrightarrow> (\<exists>x. m = Inr x \<and> f x = Inr y)"
  by (cases m) simp_all

lemma map_err_total: "map_err (\<lambda>x. Inr (g x)) xs = Inr (map g xs)"
  by (induction xs) simp_all

text \<open>
  The mask call of the quick run. Claim C9 says that the quick run invokes the mask with
  four arguments (pupil radius, pupil angle, aperture radius, focal length). No theorem
  of this theory settles it; the lemmas below record what the source does. Line 233
  calls the mask with the two grids only, so a mask declared with two parameters is
  accepted and one declared with the claim's four parameters raises \<^verbatim>\<open>TypeError\<close>.
  The full run (line 174) calls the mask with five arguments, and the quick run cannot
  return at all: its last statement (line 249) calls \<^verbatim>\<open>plot_in_cartesian\<close> without
  \<^verbatim>\<open>figure_name\<close>. The source therefore shows neither the four-argument call nor the
  two-argument call as the interface of a working path.
\<close>

lemma quick_test_mask_two_arguments:
  "test_prefactor (def2 f) rho_values phi_values weight radius
   = Inr (map (\<lambda>(j, phi).
            map (\<lambda>(i, rho). complex_of_real rho * complex_of_real (exp (- ((rho / radius)\<^sup>2)))
                               * f rho phi * complex_of_real (weight ! j ! i))
              (enumerate 0 rho_values))
          (enumerate 0 phi_values))"
  by (simp add: test_prefactor_def def2_def case_prod_unfold map_err_total)

lemma quick_test_mask_four_parameters_rejected:
  "test_prefactor (def4 (\<lambda>rho phi radius focus. 1)) (linspace 0 1 2) (linspace 0 (2 * pi) 2)
       (weight_2d [1 / 4, 1 / 4] [pi / 2, pi / 2]) 1
   = Inl TypeError"
  by (simp add: test_prefactor_def linspace_def def4_def numeral_2_eq_2)

lemma full_run_mask_five_arguments:
  "objective_prefactor (def5 f) rho_values phi_values weight radius focus k kl L
   = Inr (map (\<lambda>(j, phi).
            map (\<lambda>(i, rho). complex_of_real rho
                   * exp (complex_of_real (- ((rho / radius)\<^sup>2))
                          + \<i> * complex_of_real (k * L + kl * rho\<^sup>2))
                   * f rho phi radius focus k * complex_of_real (weight ! j ! i))
              (enumerate 0 rho_values))
          (enumerate 0 phi_values))"
  by (simp add: objective_prefactor_def def5_def case_prod_unfold map_err_total)

lemma quick_run_never_returns:
  "test_custom_mask_objective_field psi delta resolution_theta resolution_phi N_rho N_phi
       alpha mask_function h L I0 Lambda radius \<noteq> Inr r"
  by (auto simp: test_custom_mask_objective_field_def Let_def bind_err_Inr_iff)

section \<open>Properties of the lens-plane fields\<close>

lemma for_loop_invariant:
  assumes "for_loop xs body s = Inr s'" and "P s"
    and "\<And>i s s'. i \<in> set xs \<Longrightarrow> P s \<Longrightarrow> body i s = Inr s' \<Longrightarrow> P s'"
  shows "P s'"
  using assms
proof (induction xs arbitrary: s)
  case Nil
  then show ?case by simp
next
  case (Cons i xs)
  from Cons.prems(1) obtain s1 where s1: "body i s = Inr s1" "for_loop xs body s1 = Inr s'"
    by (auto simp: bind_err_Inr_iff)
  have "P s1" using Cons.prems(3) [of i s s1] Cons.prems(2) s1(1) by simp
  moreover have "\<And>j t t'. j \<in> set xs \<Longrightarrow> P t \<Longrightarrow> body j t = Inr t' \<Longrightarrow> P t'"
    using Cons.prems(3) by (meson list.set_intros(2))
  ultimately show ?case by (rule Cons.IH [OF s1(2)])
qed

lemma mat_scale_nth:
  "i < length M \<Longrightarrow> j < length (M ! i) \<Longrightarrow> mat_scale c M ! i ! j = M ! i ! j * c"
  by (simp add: mat_scale_def)

lemma mat_scale_length [simp]: "length (mat_scale c M) = length M"
  by (simp add: mat_scale_def)

lemma mat_scale_row_length: "i < length M \<Longrightarrow> length (mat_scale c M ! i) = length (M ! i)"
  by (simp add: mat_scale_def)

lemma proportional_scaled:
  assumes "c1 * complex_of_real (sin (psi * pi / 180)) * exp (\<i> * complex_of_real (delta * pi / 180))
           = c2 * complex_of_real (cos (psi * pi / 180))"
  shows "proportional_fields psi delta (mat_scale c1 E) (mat_scale c2 E)"
proof -
  have "\<And>z. z * c1 * complex_of_real (sin (psi * pi / 180))
                * exp (\<i> * complex_of_real (delta * pi / 180))
            = z * c2 * complex_of_real (cos (psi * pi / 180))"
    using assms by (metis (no_types, lifting) mult.assoc)
  then show ?thesis
    by (simp add: proportional_fields_def mat_scale_nth mat_scale_row_length)
qed

lemma mat_scale_twice: "mat_scale c (mat_scale d M) = mat_scale (d * c) M"
  by (simp add: mat_scale_def mult.assoc)

lemma incident_loops_equal:
  assumes "for_loop (enumerate 0 phip_values) (\<lambda>(i, phip).
             for_loop (enumerate 0 rhop_values) (\<lambda>(j, rhop) (ex_lens, ey_lens).
               bind_err (maskfunction [rhop, phip, radius, focus, k]) (\<lambda>phase.
                 Inr (mat_set ex_lens i j (g rhop * phase),
                      mat_set ey_lens i j (g rhop * phase)))))
             (E :: cmatrix, E) = Inr (ex_lens, ey_lens)"
  shows "ex_lens = ey_lens"
proof -
  let ?P = "\<lambda>s :: cmatrix \<times> cmatrix. fst s = snd s"
  have inner: "\<And>i phip s s'. ?P s \<Longrightarrow>
      for_loop (enumerate 0 rhop_values) (\<lambda>(j, rhop) (ex_lens, ey_lens).
               bind_err (maskfunction [rhop, phip, radius, focus, k]) (\<lambda>phase.
                 Inr (mat_set ex_lens i j (g rhop * phase),
                      mat_set ey_lens i j (g rhop * phase)))) s = Inr s' \<Longrightarrow> ?P s'"
  proof -
    fix i phip and s s' :: "cmatrix \<times> cmatrix"
    assume P: "?P s" and run: "for_loop (enumerate 0 rhop_values) (\<lambda>(j, rhop) (ex_lens, ey_lens).
               bind_err (maskfunction [rhop, phip, radius, focus, k]) (\<lambda>phase.
                 Inr (mat_set ex_lens i j (g rhop * phase),
                      mat_set ey_lens i j (g rhop * phase)))) s = Inr s'"
    show "?P s'"
      by (rule for_loop_invariant [OF run, where P = ?P, OF P])
         (auto simp: bind_err_Inr_iff)
  qed
  have "?P (ex_lens, ey_lens)"
    by (rule for_loop_invariant [OF assms, where P = ?P]) (auto dest: inner)
  then show ?thesis by simp
qed

lemma exp_angle_forms:
  "exp (\<i> * complex_of_real delta * complex_of_real pi / 180)
     = exp (\<i> * complex_of_real (delta * pi / 180))"
  "exp (\<i> * complex_of_real pi / 180 * complex_of_real delta)
     = exp (\<i> * complex_of_real (delta * pi / 180))"
  by (simp_all add: mult_ac)

lemma generate_incident_field_proportional:
  assumes "generate_incident_field maskfunction alpha focus resolution_phi resolution_theta h
             psi delta radius I0 wavelength = Inr (ex_lens, ey_lens)"
  shows "proportional_fields psi delta ex_lens ey_lens"
proof -
  let ?c1 = "complex_of_real (cos (psi * pi / 180) * sqrt I0)"
  let ?c2 = "complex_of_real (sin (psi * pi / 180))
                * exp (\<i> * complex_of_real delta * complex_of_real pi / 180)
                * complex_of_real (sqrt I0)"
  from assms obtain ex0 ey0 where
    loops: "for_loop (enumerate 0 (linspace 0 (2 * pi) resolution_phi)) (\<lambda>(i, phip).
                for_loop (enumerate 0 (map (\<lambda>t. sin t * focus) (linspace 0 alpha resolution_theta)))
                  (\<lambda>(j, rhop) (ex_lens, ey_lens).
                  bind_err (maskfunction [rhop, phip, radius, focus, 2 * pi / wavelength]) (\<lambda>phase.
                    Inr (mat_set ex_lens i j (complex_of_real (exp (- ((rhop / radius)\<^sup>2))) * phase),
                         mat_set ey_lens i j (complex_of_real (exp (- ((rhop / radius)\<^sup>2))) * phase)))))
                (zeros resolution_phi resolution_theta, zeros resolution_phi resolution_theta)
            = Inr (ex0, ey0)"
    and ex: "ex_lens = mat_scale ?c1 ex0" and ey: "ey_lens = mat_scale ?c2 ey0"
    unfolding generate_incident_field_def Let_def
    by (auto simp: bind_err_Inr_iff split: if_splits)
  have same: "ex0 = ey0"
    by (rule incident_loops_equal [OF loops])
  have "?c1 * complex_of_real (sin (psi * pi / 180)) * exp (\<i> * complex_of_real (delta * pi / 180))
        = ?c2 * complex_of_real (cos (psi * pi / 180))"
    by (simp add: exp_angle_forms mult_ac)
  then show ?thesis unfolding ex ey same by (rule proportional_scaled)
qed

lemma custom_mask_objective_field_proportional:
  assumes "custom_mask_objective_field psi delta resolution_theta resolution_phi N_rho N_phi
             alpha mask_function h L I0 Lambda radius
           = Inr (Ex_field, Ey_field, I_cartesian, Ex_cartesian, Ey_cartesian)"
  shows "proportional_fields psi delta Ex_field Ey_field"
proof -
  let ?c0 = "- \<i> / complex_of_real Lambda / complex_of_real L"
  let ?e = "exp (\<i> * complex_of_real pi / 180 * complex_of_real delta)"
  let ?c1 = "complex_of_real (cos (pi / 180 * psi) * sqrt I0)"
  let ?c2 = "complex_of_real (sin (pi / 180 * psi) * sqrt I0)"
  from assms obtain R where
    ex: "Ex_field = mat_scale ?c1 (mat_scale ?c0 R)"
    and ey: "Ey_field = mat_scale ?c2 (mat_scale ?e (mat_scale ?c0 R))"
    unfolding custom_mask_objective_field_def Let_def
    by (auto simp: bind_err_Inr_iff split: if_splits)
  have angle: "pi / 180 * psi = psi * pi / 180" by simp
  have "(?c0 * ?c1) * complex_of_real (sin (psi * pi / 180))
          * exp (\<i> * complex_of_real (delta * pi / 180))
        = (?c0 * ?e * ?c2) * complex_of_real (cos (psi * pi / 180))"
    unfolding angle exp_angle_forms by (simp add: mult_ac)
  then have "proportional_fields psi delta (mat_scale (?c0 * ?c1) R) (mat_scale (?c0 * ?e * ?c2) R)"
    by (rule proportional_scaled)
  then show ?thesis unfolding ex ey by (simp only: mat_scale_twice)
qed

lemma proportional_right_angle:
  assumes "proportional_fields 90 delta Ex_field Ey_field"
  shows "all_zero Ex_field"
  unfolding all_zero_def
proof (intro ballI)
  fix row z assume "row \<in> set Ex_field" and "z \<in> set row"
  then obtain i j where i: "i < length Ex_field" and row: "row = Ex_field ! i"
    and j: "j < length row" and z: "z = row ! j"
    by (metis in_set_conv_nth)
  have "Ex_field ! i ! j * complex_of_real (sin (90 * pi / 180))
          * exp (\<i> * complex_of_real (delta * pi / 180))
        = Ey_field ! i ! j * complex_of_real (cos (90 * pi / 180))"
    using assms i j row unfolding proportional_fields_def by blast
  moreover have "(90::real) * pi / 180 = pi / 2" by simp
  ultimately have "Ex_field ! i ! j * exp (\<i> * complex_of_real (delta * pi / 180)) = 0"
    by simp
  then show "z = 0" using z row by simp
qed

lemma proportional_zero_angle:
  assumes "proportional_fields 0 delta Ex_field Ey_field"
  shows "all_zero Ey_field"
  unfolding all_zero_def
proof (intro ballI)
  fix row z assume "row \<in> set Ey_field" and "z \<in> set row"
  then obtain i j where i: "i < length Ey_field" and row: "row = Ey_field ! i"
    and j: "j < length row" and z: "z = row ! j"
    by (metis in_set_conv_nth)
  from assms have len: "length Ey_field = length Ex_field"
    and rows: "\<And>i. i < length Ex_field \<Longrightarrow> length (Ey_field ! i) = length (Ex_field ! i)"
    and eq: "\<And>i j. i < length Ex_field \<Longrightarrow> j < length (Ex_field ! i) \<Longrightarrow>
               Ex_field ! i ! j * complex_of_real (sin (0 * pi / 180))
                 * exp (\<i> * complex_of_real (delta * pi / 180))
               = Ey_field ! i ! j * complex_of_real (cos (0 * pi / 180))"
    unfolding proportional_fields_def by blast+
  have i': "i < length Ex_field" using i len by simp
  have j': "j < length (Ex_field ! i)" using j row rows [OF i'] by simp
  from eq [OF i' j'] show "z = 0" using z row by simp
qed

text \<open>
  Claim C10. Whenever a lens-plane synthesizer returns, its two polarization arrays have
  one shape and are elementwise proportional: at every grid point
  \<open>Ex * sin (psi * pi / 180) * exp (i * delta * pi / 180) = Ey * cos (psi * pi / 180)\<close>.
  In particular the X component is identically zero for \<open>psi = 90\<close> and the Y component
  is identically zero for \<open>psi = 0\<close>. This holds for \<^verbatim>\<open>generate_incident_field\<close> and for
  \<^verbatim>\<open>custom_mask_objective_field\<close>.
\<close>

theorem lens_fields_proportional:
  "(generate_incident_field maskfunction alpha focus resolution_phi resolution_theta h
        psi delta radius I0 wavelength = Inr (ex_lens, ey_lens)
      \<longrightarrow> proportional_fields psi delta ex_lens ey_lens
          \<and> (psi = 90 \<longrightarrow> all_zero ex_lens) \<and> (psi = 0 \<longrightarrow> all_zero ey_lens))
   \<and> (custom_mask_objective_field psi delta resolution_theta resolution_phi N_rho N_phi
        alpha mask_function h' L I0 Lambda radius
        = Inr (Ex_field, Ey_field, I_cartesian, Ex_cartesian, Ey_cartesian)
      \<longrightarrow> proportional_fields psi delta Ex_field Ey_field
          \<and> (psi = 90 \<longrightarrow> all_zero Ex_field) \<and> (psi = 0 \<longrightarrow> all_zero Ey_field))"
proof (intro conjI impI)
  assume "generate_incident_field maskfunction alpha focus resolution_phi resolution_theta h
        psi delta radius I0 wavelength = Inr (ex_lens, ey_lens)"
  then have p: "proportional_fields psi delta ex_lens ey_lens"
    by (rule generate_incident_field_proportional)
  show "proportional_fields psi delta ex_lens ey_lens" by (rule p)
  show "all_zero ex_lens" if "psi = 90" using p that by (auto intro: proportional_right_angle)
  show "all_zero ey_lens" if "psi = 0" using p that by (auto intro: proportional_zero_angle)
next
  assume "custom_mask_objective_field psi delta resolution_theta resolution_phi N_rho N_phi
        alpha mask_function h' L I0 Lambda radius
        = Inr (Ex_field, Ey_field, I_cartesian, Ex_cartesian, Ey_cartesian)"
  then have p: "proportional_fields psi delta Ex_field Ey_field"
    by (rule custom_mask_objective_field_proportional)
  show "proportional_fields psi delta Ex_field Ey_field" by (rule p)
  show "all_zero Ex_field" if "psi = 90" using p that by (auto intro: proportional_right_angle)
  show "all_zero Ey_field" if "psi = 0" using p that by (auto intro: proportional_zero_angle)
qed

lemma gen_value:
  "generate_incident_field (def5 (\<lambda>rho phi radius focus k. 1)) 1 1 1 1 1 0 0 1 1 1
   = Inr ([[1]], [[0]])"
  by (simp add: generate_incident_field_def Let_def linspace_def def5_def zeros_def
        mat_set_def mat_scale_def)

lemma trapezoid_weight_one: "trapezoid_weight L (Suc 0) = Inr [L / 2]"
  by (simp add: trapezoid_weight_value)

lemma plot_value:
  "plot_in_cartesian (Suc 0, Suc 0) [[0]] [[0]] 1 1 (1 / sin 1)
   = Inr ([[0, 0], [0, 0]], [[0, 0], [0, 0]], [[0, 0], [0, 0]])"
  by (simp add: plot_in_cartesian_def Let_def linspace_def zeros_def numeral_2_eq_2
        plot_cell_def)

lemma obj_value:
  "custom_mask_objective_field 0 0 1 1 1 1 1 (def5 (\<lambda>rho phi radius focus k. 1)) 1 1 1 1 1
   = Inr ([[0]], [[0]], [[0, 0], [0, 0]], [[0, 0], [0, 0]], [[0, 0], [0, 0]])"
  by (simp add: custom_mask_objective_field_def Let_def trapezoid_weight_one linspace_def
        objective_prefactor_def def5_def zeros_def weight_2d_def meshgrid_map_def
        mat_set_def mat_scale_def mat_times_def sum_all_def plot_value)

text \<open>
  Witness for C10: both synthesizers on a grid of one sample per axis with a constant
  mask and \<open>psi = 0\<close>, \<open>delta = 0\<close>.
\<close>

theorem lens_fields_proportional_witness:
  "generate_incident_field (def5 (\<lambda>rho phi radius focus k. 1)) 1 1 1 1 1 0 0 1 1 1
     = Inr ([[1]], [[0]])
   \<and> proportional_fields 0 0 [[1]] [[0]] \<and> all_zero [[0]]
   \<and> custom_mask_objective_field 0 0 1 1 1 1 1 (def5 (\<lambda>rho phi radius focus k. 1)) 1 1 1 1 1
     = Inr ([[0]], [[0]], [[0, 0], [0, 0]], [[0, 0], [0, 0]], [[0, 0], [0, 0]])
   \<and> proportional_fields 0 0 [[0]] [[0]]"
  using lens_fields_proportional [where maskfunction = "def5 (\<lambda>rho phi radius focus k. 1)"
          and alpha = 1 and focus = 1 and resolution_phi = 1 and resolution_theta = 1 and h = 1
          and psi = 0 and delta = 0 and radius = 1 and ?I0.0 = 1 and wavelength = 1
          and ex_lens = "[[1]]" and ey_lens = "[[0]]" and N_rho = 1 and N_phi = 1
          and mask_function = "def5 (\<lambda>rho phi radius focus k. 1)" and h' = 1 and L = 1
          and Lambda = 1 and Ex_field = "[[0]]" and Ey_field = "[[0]]"
          and I_cartesian = "[[0, 0], [0, 0]]" and Ex_cartesian = "[[0, 0], [0, 0]]"
          and Ey_cartesian = "[[0, 0], [0, 0]]"]
    gen_value obj_value
  by simp

section \<open>Properties of the axial-plane selector\<close>

lemma mat_scale_zeros [simp]: "mat_scale c (zeros r n) = zeros r n"
  by (simp add: mat_scale_def zeros_def)

lemma focus_field_stages:
  assumes "custom_mask_focus_field ex_lens ey_lens alpha h Lambda zp0 resolution_focus
             resolution_theta resolution_phi FOV_focus countdown x0 y0 = Inr r"
  shows "\<exists>ex_rot ey_rot w_rho w_phi A.
           rotate_180 ex_lens = Inr ex_rot \<and> rotate_270 ey_lens = Inr ey_rot
         \<and> trapezoid_weight alpha resolution_theta = Inr w_rho
         \<and> trapezoid_weight (2 * pi) resolution_phi = Inr w_phi
         \<and> coupling_arrays ex_rot ey_rot (weight_2d w_rho w_phi)
               (linspace 0 alpha resolution_theta) (linspace 0 (2 * pi) resolution_phi) = Inr A"
  using assms unfolding custom_mask_focus_field_def Let_def
  by (auto simp: bind_err_Inr_iff split: if_splits)

lemma invalid_selector_result:
  assumes "plot_plane \<noteq> ''X''" and "plot_plane \<noteq> ''Y''"
  shows "custom_mask_focus_field_XZ_XY ex_lens ey_lens alpha h Lambda z_FOV resolution_z zp0
           resolution_focus resolution_theta resolution_phi FOV_focus x0 y0 plot_plane
         = bind_err (custom_mask_focus_field ex_lens ey_lens alpha h Lambda zp0 resolution_focus
                       resolution_theta resolution_phi FOV_focus True x0 y0)
             (\<lambda>(printed, Ex_XY, Ey_XY, Ez_XY).
                Inr (printed @ [options_message],
                     (zeros (odd_resolution_z resolution_z) resolution_focus,
                      zeros (odd_resolution_z resolution_z) resolution_focus,
                      zeros (odd_resolution_z resolution_z) resolution_focus),
                     (Ex_XY, Ey_XY, Ez_XY)))"
proof (cases "custom_mask_focus_field ex_lens ey_lens alpha h Lambda zp0 resolution_focus
                       resolution_theta resolution_phi FOV_focus True x0 y0")
  case (Inl e)
  then show ?thesis by (simp add: custom_mask_focus_field_XZ_XY_def)
next
  case (Inr r)
  from focus_field_stages [OF Inr] obtain ex_rot ey_rot w_rho w_phi A where
    st: "rotate_180 ex_lens = Inr ex_rot" "rotate_270 ey_lens = Inr ey_rot"
        "trapezoid_weight alpha resolution_theta = Inr w_rho"
        "trapezoid_weight (2 * pi) resolution_phi = Inr w_phi"
        "coupling_arrays ex_rot ey_rot (weight_2d w_rho w_phi)
               (linspace 0 alpha resolution_theta) (linspace 0 (2 * pi) resolution_phi) = Inr A"
    by blast
  show ?thesis
    using assms
    by (simp add: custom_mask_focus_field_XZ_XY_def Inr Let_def st case_prod_unfold)
qed

text \<open>
  Claim C3, as amended. With an axial-plane selector other than \<open>X\<close> and \<open>Y\<close> the XY+axial
  synthesizer does not fail with a configuration error. It fails only where the XY-plane
  computation fails; otherwise it prints the options message after the XY-plane
  computation's own output and returns normally: the axial-plane triple is three
  all-zero arrays with one row per (odd) axial sample and one column per transverse
  sample, and the XY-plane triple is the one of the single-plane synthesizer.
\<close>

theorem invalid_selector_prints_and_returns:
  assumes "plot_plane \<noteq> ''X''" and "plot_plane \<noteq> ''Y''"
  shows "custom_mask_focus_field_XZ_XY ex_lens ey_lens alpha h Lambda z_FOV resolution_z zp0
           resolution_focus resolution_theta resolution_phi FOV_focus x0 y0 plot_plane
         = bind_err (custom_mask_focus_field ex_lens ey_lens alpha h Lambda zp0 resolution_focus
                       resolution_theta resolution_phi FOV_focus True x0 y0)
             (\<lambda>(printed, Ex_XY, Ey_XY, Ez_XY).
                Inr (printed @ [options_message],
                     (zeros (odd_resolution_z resolution_z) resolution_focus,
                      zeros (odd_resolution_z resolution_z) resolution_focus,
                      zeros (odd_resolution_z resolution_z) resolution_focus),
                     (Ex_XY, Ey_XY, Ez_XY)))"
  using assms by (rule invalid_selector_result)

lemma rotate_180_single: "rotate_180 [r] = Inr [r]"
  by (simp add: rotate_180_rotate)

lemma rotate_270_single: "rotate_270 [r] = Inr [r]"
  by (simp add: rotate_270_rotate)

lemma mat_mul_single: "mat_mul [[a]] [[b]] = Inr [[a * b]]"
  by (simp add: mat_mul_def broadcast_def)

lemma focus_returns_example:
  "\<exists>ex ey ez. custom_mask_focus_field [[1]] [[1]] 1 1 1 0 (Suc 0) (Suc 0) (Suc 0) 1 True 0 0
     = Inr ([''Calculating field at the focal plane:''], ex, ey, ez)"
  by (simp add: custom_mask_focus_field_def Let_def rotate_180_single rotate_270_single
        trapezoid_weight_one linspace_def weight_2d_def coupling_arrays_def meshgrid_map_def
        mat_mul_single mat_scale_def xy_column_def phase_kernels_def field_sums_def
        zeros_def mat_set_def sum_all_def)

lemma zeros_3_1: "zeros 3 (Suc 0) = [[0], [0], [0]]"
  by (simp add: zeros_def numeral_3_eq_3)

lemma odd_resolution_z_2: "odd_resolution_z 2 = 3"
  by (simp add: odd_resolution_z_def)

text \<open>Witness for C3: the selector \<open>x\<close> in lower case, on lens fields of one sample.\<close>

theorem invalid_selector_prints_and_returns_witness:
  "''x'' \<noteq> ''X'' \<and> ''x'' \<noteq> ''Y''
   \<and> (\<exists>ex ey ez.
         custom_mask_focus_field_XZ_XY [[1]] [[1]] 1 1 1 1 2 0 1 1 1 1 0 0 ''x''
         = Inr ([''Calculating field at the focal plane:'', options_message],
                ([[0], [0], [0]], [[0], [0], [0]], [[0], [0], [0]]), (ex, ey, ez)))"
proof -
  have a: "''x'' \<noteq> ''X''" and b: "''x'' \<noteq> ''Y''" by simp_all
  from focus_returns_example obtain ex ey ez where
    xy: "custom_mask_focus_field [[1]] [[1]] 1 1 1 0 (Suc 0) (Suc 0) (Suc 0) 1 True 0 0
           = Inr ([''Calculating field at the focal plane:''], ex, ey, ez)"
    by blast
  have "custom_mask_focus_field_XZ_XY [[1]] [[1]] 1 1 1 1 2 0 1 1 1 1 0 0 ''x''
         = Inr ([''Calculating field at the focal plane:'', options_message],
                ([[0], [0], [0]], [[0], [0], [0]], [[0], [0], [0]]), (ex, ey, ez))"
    unfolding invalid_selector_prints_and_returns [OF a b]
    using xy by (simp add: odd_resolution_z_2 zeros_3_1)
  then show ?thesis using a b by blast
qed

text \<open>
  Counterexample for C3 as stated: with the selector \<open>Z\<close> the call returns (its result is
  not an error); what it printed and its all-zero axial-plane triple are shown.
\<close>

theorem invalid_selector_no_error_counterexample:
  "map_sum id (\<lambda>r. (fst r, fst (snd r)))
     (custom_mask_focus_field_XZ_XY [[1]] [[1]] 1 1 1 1 2 0 1 1 1 1 0 0 ''Z'')
   = Inr ([''Calculating field at the focal plane:'', options_message],
          ([[0], [0], [0]], [[0], [0], [0]], [[0], [0], [0]]))"
proof -
  have a: "''Z'' \<noteq> ''X''" and b: "''Z'' \<noteq> ''Y''" by simp_all
  from focus_returns_example obtain ex ey ez where
    xy: "custom_mask_focus_field [[1]] [[1]] 1 1 1 0 (Suc 0) (Suc 0) (Suc 0) 1 True 0 0
           = Inr ([''Calculating field at the focal plane:''], ex, ey, ez)"
    by blast
  show ?thesis
    unfolding invalid_selector_result [OF a b]
    using xy by (simp add: odd_resolution_z_2 zeros_3_1)
qed

section \<open>Properties of the polar-to-Cartesian resampler\<close>

lemma argmin_from_spec:
  assumes "length zs = i + length xs" and "drop i zs = xs" and "best < i" and "zs ! best = v"
    and "\<forall>m<i. v \<le> zs ! m" and "\<forall>m<best. v < zs ! m"
  shows "argmin_from xs i best v < length zs
         \<and> (\<forall>m<length zs. zs ! argmin_from xs i best v \<le> zs ! m)
         \<and> (\<forall>m<argmin_from xs i best v. zs ! argmin_from xs i best v < zs ! m)"
  using assms
proof (induction xs arbitrary: i best v)
  case Nil
  then show ?case by simp
next
  case (Cons x xs)
  have i: "i < length zs" using Cons.prems(1) by simp
  have zi: "zs ! i = x" using Cons.prems(2) i by (metis nth_via_drop)
  have dr: "drop (Suc i) zs = xs" using Cons.prems(2) by (metis drop_Suc tl_drop list.sel(3))
  have len: "length zs = Suc i + length xs" using Cons.prems(1) by simp
  show ?case
  proof (cases "x < v")
    case True
    have a: "\<forall>m<Suc i. x \<le> zs ! m"
      using True Cons.prems(5) zi by (auto simp: less_Suc_eq intro: less_imp_le order.strict_trans2)
    have b: "\<forall>m<i. x < zs ! m"
      using True Cons.prems(5) by (auto intro: order.strict_trans2)
    from Cons.IH [OF len dr _ zi a b] True show ?thesis by simp
  next
    case False
    have a: "\<forall>m<Suc i. v \<le> zs ! m"
      using False Cons.prems(5) zi by (auto simp: less_Suc_eq)
    have bs: "best < Suc i" using Cons.prems(3) by simp
    from Cons.IH [OF len dr bs Cons.prems(4) a Cons.prems(6)] False show ?thesis by simp
  qed
qed

lemma np_argmin_spec:
  assumes "np_argmin zs = Inr k"
  shows "k < length zs \<and> (\<forall>m<length zs. zs ! k \<le> zs ! m) \<and> (\<forall>m<k. zs ! k < zs ! m)"
proof (cases zs)
  case Nil
  then show ?thesis using assms by (simp add: np_argmin_def)
next
  case (Cons x rest)
  then have k: "k = argmin_from rest 1 0 x" using assms by (simp add: np_argmin_def)
  have "argmin_from rest 1 0 x < length zs
         \<and> (\<forall>m<length zs. zs ! argmin_from rest 1 0 x \<le> zs ! m)
         \<and> (\<forall>m<argmin_from rest 1 0 x. zs ! argmin_from rest 1 0 x < zs ! m)"
    by (rule argmin_from_spec) (simp_all add: Cons)
  then show ?thesis by (simp add: k)
qed

lemma np_argmin_total: "zs \<noteq> [] \<Longrightarrow> \<exists>k. np_argmin zs = Inr k"
  by (cases zs) (simp_all add: np_argmin_def)

lemma np_argmin_nearest:
  assumes "np_argmin (map (\<lambda>r. \<bar>r - target\<bar>) samples) = Inr k"
  shows "nearest_index samples target k"
proof -
  let ?d = "map (\<lambda>r. \<bar>r - target\<bar>) samples"
  note spec = np_argmin_spec [OF assms]
  from spec have k: "k < length samples" by simp
  from spec have raw_least: "\<And>m. m < length ?d \<Longrightarrow> ?d ! k \<le> ?d ! m" by blast
  from spec have raw_first: "\<And>m. m < k \<Longrightarrow> ?d ! k < ?d ! m" by blast
  have d: "\<And>m. m < length samples \<Longrightarrow> ?d ! m = \<bar>samples ! m - target\<bar>" by simp
  have least: "\<bar>samples ! k - target\<bar> \<le> \<bar>samples ! m - target\<bar>" if "m < length samples" for m
  proof -
    from that have "?d ! k \<le> ?d ! m" by (intro raw_least) simp
    then show ?thesis using d [OF k] d [OF that] by simp
  qed
  have first: "\<bar>samples ! k - target\<bar> < \<bar>samples ! m - target\<bar>" if "m < k" for m
  proof -
    from that k have m: "m < length samples" by simp
    from that have "?d ! k < ?d ! m" by (rule raw_first)
    then show ?thesis using d [OF k] d [OF m] by simp
  qed
  show ?thesis unfolding nearest_index_def using k least first by blast
qed

lemma mat_set_length [simp]: "length (mat_set M j i v) = length M"
  by (simp add: mat_set_def)

lemma mat_set_row_length: "j' < length M \<Longrightarrow> length (mat_set M j i v ! j') = length (M ! j')"
  by (cases "j' = j") (simp_all add: mat_set_def)

lemma mat_set_nth:
  "j' < length M \<Longrightarrow> i' < length (M ! j') \<Longrightarrow>
     mat_set M j i v ! j' ! i' = (if j' = j \<and> i' = i then v else M ! j' ! i')"
  by (cases "j' = j"; cases "i' = i") (simp_all add: mat_set_def)

lemma square_pair_set:
  "square_pair n s \<Longrightarrow> square_pair n (mat_set (fst s) j i a, mat_set (snd s) j i b)"
  by (simp add: square_pair_def mat_set_row_length)

lemma cell_pair_set:
  assumes "square_pair n s" "j' < n" "i' < n"
  shows "cell_pair (mat_set (fst s) j i a, mat_set (snd s) j i b) j' i'
         = (if j' = j \<and> i' = i then (a, b) else cell_pair s j' i')"
  using assms by (simp add: square_pair_def cell_pair_def mat_set_nth)

lemma plot_cell_step:
  assumes "rhop_values \<noteq> []" and "phip_values \<noteq> []"
  shows "plot_cell Ex_polar Ey_polar xmax rhop_values phip_values i x j y s
         = Inr (if sqrt (x\<^sup>2 + y\<^sup>2) < xmax
                then (mat_set (fst s) j i
                        (fst (resampled_value Ex_polar Ey_polar rhop_values phip_values x y)),
                      mat_set (snd s) j i
                        (snd (resampled_value Ex_polar Ey_polar rhop_values phip_values x y)))
                else s)"
proof -
  obtain id_rho where r: "np_argmin (map (\<lambda>r. \<bar>r - sqrt (x\<^sup>2 + y\<^sup>2)\<bar>) rhop_values) = Inr id_rho"
    using np_argmin_total [of "map (\<lambda>r. \<bar>r - sqrt (x\<^sup>2 + y\<^sup>2)\<bar>) rhop_values"] assms(1) by auto
  obtain id_phi where p: "np_argmin (map (\<lambda>p. \<bar>p - polar_angle x y\<bar>) phip_values) = Inr id_phi"
    using np_argmin_total [of "map (\<lambda>p. \<bar>p - polar_angle x y\<bar>) phip_values"] assms(2) by auto
  have p': "np_argmin (map (\<lambda>p. \<bar>p - (if arctan2 y x < 0 then arctan2 y x + 2 * pi else arctan2 y x)\<bar>)
              phip_values) = Inr id_phi"
    using p by (simp add: polar_angle_def)
  show ?thesis
    by (cases s) (simp add: plot_cell_def Let_def resampled_value_def r p p')
qed

lemma enumerate_Cons: "enumerate k (y # ys) = (k, y) # enumerate (Suc k) ys"
  by simp

lemma inner_loop_cells:
  assumes ne: "rhop_values \<noteq> []" "phip_values \<noteq> []"
    and "square_pair n s" and "i < n" and "k + length ys \<le> n"
  shows "\<exists>s'. for_loop (enumerate k ys)
                 (\<lambda>(j, y). plot_cell Ex_polar Ey_polar xmax rhop_values phip_values i x j y) s
               = Inr s'
             \<and> square_pair n s'
             \<and> (\<forall>j'<n. \<forall>i'<n. cell_pair s' j' i' =
                   (if i' = i \<and> k \<le> j' \<and> j' < k + length ys
                       \<and> sqrt (x\<^sup>2 + (ys ! (j' - k))\<^sup>2) < xmax
                    then resampled_value Ex_polar Ey_polar rhop_values phip_values x (ys ! (j' - k))
                    else cell_pair s j' i'))"
  using assms(3,5)
proof (induction ys arbitrary: k s)
  case Nil
  then show ?case by auto
next
  case (Cons y ys)
  let ?v = "resampled_value Ex_polar Ey_polar rhop_values phip_values x y"
  let ?s1 = "if sqrt (x\<^sup>2 + y\<^sup>2) < xmax
             then (mat_set (fst s) k i (fst ?v), mat_set (snd s) k i (snd ?v)) else s"
  have k: "k < n" using Cons.prems(2) by simp
  have sq1: "square_pair n ?s1" using Cons.prems(1) by (simp add: square_pair_set)
  have c1: "\<And>j' i'. j' < n \<Longrightarrow> i' < n \<Longrightarrow> cell_pair ?s1 j' i' =
              (if sqrt (x\<^sup>2 + y\<^sup>2) < xmax \<and> j' = k \<and> i' = i then ?v else cell_pair s j' i')"
    using Cons.prems(1) by (simp add: cell_pair_set)
  have le: "Suc k + length ys \<le> n" using Cons.prems(2) by simp
  from Cons.IH [OF sq1 le] obtain s' where
    run: "for_loop (enumerate (Suc k) ys)
            (\<lambda>(j, y). plot_cell Ex_polar Ey_polar xmax rhop_values phip_values i x j y) ?s1 = Inr s'"
    and sq': "square_pair n s'"
    and cells: "\<forall>j'<n. \<forall>i'<n. cell_pair s' j' i' =
                   (if i' = i \<and> Suc k \<le> j' \<and> j' < Suc k + length ys
                       \<and> sqrt (x\<^sup>2 + (ys ! (j' - Suc k))\<^sup>2) < xmax
                    then resampled_value Ex_polar Ey_polar rhop_values phip_values x (ys ! (j' - Suc k))
                    else cell_pair ?s1 j' i')"
    by blast
  have whole: "for_loop (enumerate k (y # ys))
                 (\<lambda>(j, y). plot_cell Ex_polar Ey_polar xmax rhop_values phip_values i x j y) s
               = Inr s'"
    using run by (simp only: enumerate_Cons for_loop.simps prod.case plot_cell_step [OF ne]
                    bind_err_simps)
  have "cell_pair s' j' i' =
          (if i' = i \<and> k \<le> j' \<and> j' < k + length (y # ys)
              \<and> sqrt (x\<^sup>2 + ((y # ys) ! (j' - k))\<^sup>2) < xmax
           then resampled_value Ex_polar Ey_polar rhop_values phip_values x ((y # ys) ! (j' - k))
           else cell_pair s j' i')" if j': "j' < n" and i': "i' < n" for j' i'
  proof (cases "j' = k")
    case True
    then show ?thesis using cells j' i' c1 [OF j' i'] by simp
  next
    case False
    show ?thesis
    proof (cases "j' < k")
      case True
      then show ?thesis using cells j' i' c1 [OF j' i'] by simp
    next
      case ge: False
      with False have gt: "Suc k \<le> j'" by simp
      then have nth: "(y # ys) ! (j' - k) = ys ! (j' - Suc k)"
        by (simp add: nth_Cons' Suc_diff_le)
      show ?thesis using cells j' i' c1 [OF j' i'] gt False unfolding nth by auto
    qed
  qed
  then show ?case using whole sq' by blast
qed

lemma outer_loop_cells:
  assumes ne: "rhop_values \<noteq> []" "phip_values \<noteq> []"
    and "square_pair n s" and len: "length y_values = n" and "k + length xs \<le> n"
  shows "\<exists>s'. for_loop (enumerate k xs)
                 (\<lambda>(i, x). for_loop (enumerate 0 y_values)
                    (\<lambda>(j, y). plot_cell Ex_polar Ey_polar xmax rhop_values phip_values i x j y)) s
               = Inr s'
             \<and> square_pair n s'
             \<and> (\<forall>j'<n. \<forall>i'<n. cell_pair s' j' i' =
                   (if k \<le> i' \<and> i' < k + length xs
                       \<and> sqrt ((xs ! (i' - k))\<^sup>2 + (y_values ! j')\<^sup>2) < xmax
                    then resampled_value Ex_polar Ey_polar rhop_values phip_values
                           (xs ! (i' - k)) (y_values ! j')
                    else cell_pair s j' i'))"
  using assms(3,5)
proof (induction xs arbitrary: k s)
  case Nil
  then show ?case by auto
next
  case (Cons x xs)
  have k: "k < n" using Cons.prems(2) by simp
  have fit: "0 + length y_values \<le> n" using len by simp
  from inner_loop_cells [OF ne Cons.prems(1) k fit, of Ex_polar Ey_polar xmax x] obtain s1 where
    run1: "for_loop (enumerate 0 y_values)
             (\<lambda>(j, y). plot_cell Ex_polar Ey_polar xmax rhop_values phip_values k x j y) s = Inr s1"
    and sq1: "square_pair n s1"
    and c1: "\<forall>j'<n. \<forall>i'<n. cell_pair s1 j' i' =
               (if i' = k \<and> 0 \<le> j' \<and> j' < 0 + length y_values
                   \<and> sqrt (x\<^sup>2 + (y_values ! (j' - 0))\<^sup>2) < xmax
                then resampled_value Ex_polar Ey_polar rhop_values phip_values x (y_values ! (j' - 0))
                else cell_pair s j' i')"
    by blast
  have le: "Suc k + length xs \<le> n" using Cons.prems(2) by simp
  from Cons.IH [OF sq1 le] obtain s' where
    run: "for_loop (enumerate (Suc k) xs)
                 (\<lambda>(i, x). for_loop (enumerate 0 y_values)
                    (\<lambda>(j, y). plot_cell Ex_polar Ey_polar xmax rhop_values phip_values i x j y)) s1
               = Inr s'"
    and sq': "square_pair n s'"
    and cells: "\<forall>j'<n. \<forall>i'<n. cell_pair s' j' i' =
                   (if Suc k \<le> i' \<and> i' < Suc k + length xs
                       \<and> sqrt ((xs ! (i' - Suc k))\<^sup>2 + (y_values ! j')\<^sup>2) < xmax
                    then resampled_value Ex_polar Ey_polar rhop_values phip_values
                           (xs ! (i' - Suc k)) (y_values ! j')
                    else cell_pair s1 j' i')"
    by blast
  have whole: "for_loop (enumerate k (x # xs))
                 (\<lambda>(i, x). for_loop (enumerate 0 y_values)
                    (\<lambda>(j, y). plot_cell Ex_polar Ey_polar xmax rhop_values phip_values i x j y)) s
               = Inr s'"
    using run run1 by (simp only: enumerate_Cons for_loop.simps prod.case bind_err_simps)
  have "cell_pair s' j' i' =
          (if k \<le> i' \<and> i' < k + length (x # xs)
              \<and> sqrt (((x # xs) ! (i' - k))\<^sup>2 + (y_values ! j')\<^sup>2) < xmax
           then resampled_value Ex_polar Ey_polar rhop_values phip_values
                  ((x # xs) ! (i' - k)) (y_values ! j')
           else cell_pair s j' i')" if j': "j' < n" and i': "i' < n" for j' i'
  proof (cases "i' = k")
    case True
    then show ?thesis using cells c1 j' i' len by simp
  next
    case False
    show ?thesis
    proof (cases "i' < k")
      case True
      then show ?thesis using cells c1 j' i' by simp
    next
      case ge: False
      with False have gt: "Suc k \<le> i'" by simp
      then have nth: "(x # xs) ! (i' - k) = xs ! (i' - Suc k)"
        by (simp add: nth_Cons' Suc_diff_le)
      show ?thesis using cells c1 j' i' gt False unfolding nth by auto
    qed
  qed
  then show ?case using whole sq' by blast
qed

lemma square_pair_zeros: "square_pair n (zeros n n, zeros n n)"
  by (simp add: square_pair_def zeros_def)

lemma cell_pair_zeros: "j < n \<Longrightarrow> i < n \<Longrightarrow> cell_pair (zeros n n, zeros n n) j i = (0, 0)"
  by (simp add: cell_pair_def zeros_def)

lemma resampled_value_nearest:
  assumes "rhop_values \<noteq> []" and "phip_values \<noteq> []"
  shows "\<exists>id_rho id_phi.
           nearest_index rhop_values (sqrt (x\<^sup>2 + y\<^sup>2)) id_rho
         \<and> nearest_index phip_values (polar_angle x y) id_phi
         \<and> resampled_value Ex_polar Ey_polar rhop_values phip_values x y
             = (Ex_polar ! id_phi ! id_rho, Ey_polar ! id_phi ! id_rho)"
proof -
  obtain id_rho where r: "np_argmin (map (\<lambda>r. \<bar>r - sqrt (x\<^sup>2 + y\<^sup>2)\<bar>) rhop_values) = Inr id_rho"
    using np_argmin_total [of "map (\<lambda>r. \<bar>r - sqrt (x\<^sup>2 + y\<^sup>2)\<bar>) rhop_values"] assms(1) by auto
  obtain id_phi where p: "np_argmin (map (\<lambda>p. \<bar>p - polar_angle x y\<bar>) phip_values) = Inr id_phi"
    using np_argmin_total [of "map (\<lambda>p. \<bar>p - polar_angle x y\<bar>) phip_values"] assms(2) by auto
  have "resampled_value Ex_polar Ey_polar rhop_values phip_values x y
             = (Ex_polar ! id_phi ! id_rho, Ey_polar ! id_phi ! id_rho)"
    by (simp add: resampled_value_def r p)
  then show ?thesis using np_argmin_nearest [OF r] np_argmin_nearest [OF p] by blast
qed

text \<open>
  Claim C6. For a polar field with at least one angular and one radial sample the
  resampler returns, and for every cell \<open>(j, i)\<close> of the square Cartesian grid, with \<open>x\<close>
  the \<open>i\<close>-th abscissa and \<open>y\<close> the \<open>j\<close>-th ordinate: if the radius \<open>sqrt (x^2 + y^2)\<close> is
  strictly less than \<open>xmax\<close>, both Cartesian arrays hold the polar sample whose radial
  index is nearest to the radius among the radial samples and whose angular index is
  nearest to the angle (brought into \<open>[0, 2 pi)\<close>) among the angular samples, each
  chosen on its own axis; otherwise both cells are exactly zero.
\<close>

theorem resampler_nearest_on_each_axis:
  assumes "0 < resolution_phi" and "0 < resolution_theta"
  shows "\<exists>I_cartesian Ex_cartesian Ey_cartesian.
           plot_in_cartesian (resolution_phi, resolution_theta) Ex_polar Ey_polar xmax alpha focus
             = Inr (I_cartesian, Ex_cartesian, Ey_cartesian)
         \<and> (\<forall>i<2 * resolution_theta. \<forall>j<2 * resolution_theta.
               (let x = linspace (- xmax) xmax (2 * resolution_theta) ! i;
                    y = linspace xmax (- xmax) (2 * resolution_theta) ! j;
                    rhop_values = map (\<lambda>t. sin t * focus) (linspace 0 alpha resolution_theta);
                    phip_values = linspace 0 (2 * pi) resolution_phi
                in if sqrt (x\<^sup>2 + y\<^sup>2) < xmax
                   then \<exists>id_rho id_phi.
                          nearest_index rhop_values (sqrt (x\<^sup>2 + y\<^sup>2)) id_rho
                        \<and> nearest_index phip_values (polar_angle x y) id_phi
                        \<and> Ex_cartesian ! j ! i = Ex_polar ! id_phi ! id_rho
                        \<and> Ey_cartesian ! j ! i = Ey_polar ! id_phi ! id_rho
                   else Ex_cartesian ! j ! i = 0 \<and> Ey_cartesian ! j ! i = 0))"
proof -
  let ?n = "2 * resolution_theta"
  let ?X = "linspace (- xmax) xmax ?n"
  let ?Y = "linspace xmax (- xmax) ?n"
  let ?rv = "map (\<lambda>t. sin t * focus) (linspace 0 alpha resolution_theta)"
  let ?pv = "linspace 0 (2 * pi) resolution_phi"
  have rv: "?rv \<noteq> []" using assms(2) by (metis length_linspace length_map list.size(3) less_numeral_extra(3))
  have pv: "?pv \<noteq> []" using assms(1) by (metis length_linspace list.size(3) less_numeral_extra(3))
  have fit: "0 + length ?X \<le> ?n" by simp
  from outer_loop_cells [OF rv pv square_pair_zeros _ fit, of ?Y Ex_polar Ey_polar xmax]
  obtain s' where
    run: "for_loop (enumerate 0 ?X)
            (\<lambda>(i, x). for_loop (enumerate 0 ?Y)
               (\<lambda>(j, y). plot_cell Ex_polar Ey_polar xmax ?rv ?pv i x j y)) (zeros ?n ?n, zeros ?n ?n)
          = Inr s'"
    and cells: "\<forall>j'<?n. \<forall>i'<?n. cell_pair s' j' i' =
                   (if 0 \<le> i' \<and> i' < 0 + length ?X
                       \<and> sqrt ((?X ! (i' - 0))\<^sup>2 + (?Y ! j')\<^sup>2) < xmax
                    then resampled_value Ex_polar Ey_polar ?rv ?pv (?X ! (i' - 0)) (?Y ! j')
                    else cell_pair (zeros ?n ?n, zeros ?n ?n) j' i')"
    by auto
  obtain Exc Eyc where s': "s' = (Exc, Eyc)" by (cases s')
  have result: "plot_in_cartesian (resolution_phi, resolution_theta) Ex_polar Ey_polar xmax alpha focus
        = Inr (map2 (map2 (\<lambda>a b. (cmod a)\<^sup>2 + (cmod b)\<^sup>2)) Exc Eyc, Exc, Eyc)"
    using run assms(2) by (simp add: plot_in_cartesian_def Let_def s')
  have cell: "(Exc ! j ! i, Eyc ! j ! i) =
                (if sqrt ((?X ! i)\<^sup>2 + (?Y ! j)\<^sup>2) < xmax
                 then resampled_value Ex_polar Ey_polar ?rv ?pv (?X ! i) (?Y ! j) else (0, 0))"
    if "i < ?n" "j < ?n" for i j
    using cells that by (simp add: s' cell_pair_def zeros_def)
  have per_cell: "if sqrt ((?X ! i)\<^sup>2 + (?Y ! j)\<^sup>2) < xmax
        then \<exists>id_rho id_phi.
               nearest_index ?rv (sqrt ((?X ! i)\<^sup>2 + (?Y ! j)\<^sup>2)) id_rho
             \<and> nearest_index ?pv (polar_angle (?X ! i) (?Y ! j)) id_phi
             \<and> Exc ! j ! i = Ex_polar ! id_phi ! id_rho
             \<and> Eyc ! j ! i = Ey_polar ! id_phi ! id_rho
        else Exc ! j ! i = 0 \<and> Eyc ! j ! i = 0" if "i < ?n" "j < ?n" for i j
  proof (cases "sqrt ((?X ! i)\<^sup>2 + (?Y ! j)\<^sup>2) < xmax")
    case True
    from resampled_value_nearest [OF rv pv, of "?X ! i" "?Y ! j" Ex_polar Ey_polar]
    obtain id_rho id_phi where
      "nearest_index ?rv (sqrt ((?X ! i)\<^sup>2 + (?Y ! j)\<^sup>2)) id_rho"
      "nearest_index ?pv (polar_angle (?X ! i) (?Y ! j)) id_phi"
      "resampled_value Ex_polar Ey_polar ?rv ?pv (?X ! i) (?Y ! j)
         = (Ex_polar ! id_phi ! id_rho, Ey_polar ! id_phi ! id_rho)"
      by blast
    then show ?thesis using cell [OF that] True by auto
  next
    case False
    then show ?thesis using cell [OF that] by simp
  qed
  show ?thesis
    unfolding Let_def
    by (intro exI [of _ Exc] exI [of _ Eyc] exI conjI allI impI, rule result, rule per_cell)
qed

lemma sqrt_two_ninths: "0 < sqrt (2 / 9)" "sqrt (2 / 9) < 1 / 2" "sqrt (2 / 9) < 1"
proof -
  show "0 < sqrt (2 / 9)" by simp
  have "sqrt (2 / 9) < sqrt (1 / 4)" by (subst real_sqrt_less_iff) simp
  also have "sqrt (1 / 4) = 1 / 2" by (simp add: real_sqrt_divide)
  finally show "sqrt (2 / 9) < 1 / 2" .
  then show "sqrt (2 / 9) < 1" by simp
qed

lemma upt_4: "[0..<4] = [0, 1, 2, 3]"
  by (simp add: upt_rec numeral_eq_Suc)

lemma linspace_example:
  "linspace (- 1) 1 4 = [- 1, - 1 / 3, 1 / 3, 1]"
  "linspace 1 (- 1) 4 = [1, 1 / 3, - 1 / 3, - 1]"
  "linspace 0 (pi / 2) 2 = [0, pi / 2]"
  "linspace 0 (2 * pi) 1 = [0]"
  by (simp_all add: linspace_def upt_4 numeral_2_eq_2)

text \<open>
  Witness for C6: one angular and two radial samples on a 4 by 4 grid of half-width 1.
  The corner cell lies outside the radius and stays zero; the cell at
  \<open>(x, y) = (-1/3, 1/3)\<close> takes the sample of radial index 0.
\<close>

theorem resampler_nearest_on_each_axis_witness:
  "(0::nat) < 1 \<and> (0::nat) < 2
   \<and> (\<exists>I_cartesian Ex_cartesian Ey_cartesian.
         plot_in_cartesian (1, 2) [[5, 6]] [[7, 8]] 1 (pi / 2) 1
           = Inr (I_cartesian, Ex_cartesian, Ey_cartesian)
       \<and> Ex_cartesian ! 0 ! 0 = 0 \<and> Ey_cartesian ! 0 ! 0 = 0
       \<and> Ex_cartesian ! 1 ! 1 = 5 \<and> Ey_cartesian ! 1 ! 1 = 7)"
proof -
  have h1: "(0::nat) < 1" and h2: "(0::nat) < 2" by simp_all
  from resampler_nearest_on_each_axis [OF h1 h2, of "[[5, 6]]" "[[7, 8]]" 1 "pi / 2" 1]
  obtain I Exc Eyc where
    res: "plot_in_cartesian (1, 2) [[5, 6]] [[7, 8]] 1 (pi / 2) 1 = Inr (I, Exc, Eyc)"
    and cells: "\<forall>i<2 * 2. \<forall>j<2 * 2.
               (let x = linspace (- 1) 1 (2 * 2) ! i;
                    y = linspace 1 (- 1) (2 * 2) ! j;
                    rhop_values = map (\<lambda>t. sin t * 1) (linspace 0 (pi / 2) 2);
                    phip_values = linspace 0 (2 * pi) 1
                in if sqrt (x\<^sup>2 + y\<^sup>2) < 1
                   then \<exists>id_rho id_phi.
                          nearest_index rhop_values (sqrt (x\<^sup>2 + y\<^sup>2)) id_rho
                        \<and> nearest_index phip_values (polar_angle x y) id_phi
                        \<and> Exc ! j ! i = [[5, 6]] ! id_phi ! id_rho
                        \<and> Eyc ! j ! i = [[7, 8]] ! id_phi ! id_rho
                   else Exc ! j ! i = 0 \<and> Eyc ! j ! i = 0)"
    by blast
  have four: "(2::nat) * 2 = 4" by simp
  note cells' = cells [unfolded four linspace_example Let_def]
  have l0: "(0::nat) < 4" and l1: "(1::nat) < 4" by simp_all
  have x0: "[- 1, - 1 / 3, 1 / 3, 1] ! 0 = (- 1 :: real)"
    and y0: "[1, 1 / 3, - 1 / 3, - 1] ! 0 = (1 :: real)"
    and x1: "[- 1, - 1 / 3, 1 / 3, 1] ! 1 = (- 1 / 3 :: real)"
    and y1: "[1, 1 / 3, - 1 / 3, - 1] ! 1 = (1 / 3 :: real)"
    and rv: "map (\<lambda>t. sin t * 1) [0, pi / 2] = [0, 1]"
    by simp_all
  have far: "\<not> sqrt ((- 1)\<^sup>2 + 1\<^sup>2) < (1::real)" by simp
  have sq: "sqrt ((- 1 / 3)\<^sup>2 + (1 / 3)\<^sup>2) = sqrt (2 / 9)"
    by (simp add: power2_eq_square)
  have outside: "Exc ! 0 ! 0 = 0 \<and> Eyc ! 0 ! 0 = 0"
    using cells' [rule_format, OF l0 l0] unfolding x0 y0 if_not_P [OF far] .
  have "\<exists>id_rho id_phi.
          nearest_index [0, 1] (sqrt (2 / 9)) id_rho
        \<and> nearest_index [0] (polar_angle (- 1 / 3) (1 / 3)) id_phi
        \<and> Exc ! 1 ! 1 = [[5, 6]] ! id_phi ! id_rho
        \<and> Eyc ! 1 ! 1 = [[7, 8]] ! id_phi ! id_rho"
    using cells' [rule_format, OF l1 l1] unfolding x1 y1 rv sq if_P [OF sqrt_two_ninths(3)] .
  then obtain id_rho id_phi where
    nr: "nearest_index [0, 1] (sqrt (2 / 9)) id_rho"
    and np: "nearest_index [0] (polar_angle (- 1 / 3) (1 / 3)) id_phi"
    and vals: "Exc ! 1 ! 1 = [[5, 6]] ! id_phi ! id_rho" "Eyc ! 1 ! 1 = [[7, 8]] ! id_phi ! id_rho"
    by blast
  have phi0: "id_phi = 0" using np by (simp add: nearest_index_def)
  have rho0: "id_rho = 0"
  proof (rule ccontr)
    assume "id_rho \<noteq> 0"
    moreover have "id_rho < 2" using nr by (simp add: nearest_index_def)
    ultimately have one: "id_rho = 1" by simp
    from nr have "\<bar>[0, 1] ! id_rho - sqrt (2 / 9)\<bar> < \<bar>[0, 1] ! 0 - sqrt (2 / 9)\<bar>"
      unfolding nearest_index_def one by simp
    then show False using sqrt_two_ninths(1,2) by (simp add: one)
  qed
  show ?thesis using res outside vals by (simp add: phi0 rho0)
qed

end
